theory Spec2Isabelle
  imports Complex_Main "HOL-Library.Word"
begin

section \<open>Data model (db/schema.js)\<close>

text \<open>
  Identifiers are UUID strings, instants are milliseconds since the epoch
  (\<^verbatim>\<open>Date.getTime()\<close>). A nullable column is an \<open>option\<close>.
\<close>

type_synonym uuid = string
type_synonym instant = int

datatype status = Pending | Scheduled | Live | Completed | Failed

datatype prayer = Fajr | Dhuhr | Asr | Maghrib | Isha | Juma

datatype platform = Android | Ios | Web

datatype error =
    ApiError nat string string
  | ReferenceError string
  | TypeError string
  | RangeError string
  | ProviderError string
  | DbError string

record broadcast =
  b_id :: uuid
  b_masjidId :: uuid
  b_createdBy :: "uuid option"
  b_title :: "string option"
  b_prayerName :: "prayer option"
  b_status :: status
  b_scheduledAt :: "instant option"
  b_streamProvider :: "string option"
  b_streamRoomId :: "string option"
  b_audioUrl :: "string option"
  b_hlsUrl :: "string option"
  b_hlsEgressId :: "string option"
  b_recordingUrl :: "string option"
  b_startedAt :: "instant option"
  b_endedAt :: "instant option"
  b_endedReason :: "string option"
  b_updatedAt :: instant

record masjid =
  m_id :: uuid
  m_timezone :: string
  m_isApproved :: bool
  m_isActive :: bool

record masjidAdmin =
  ma_masjidId :: uuid
  ma_userId :: uuid

record preferences =
  mutedPrayers :: "prayer list option"
  wakeOnSilent :: "bool option"

record subscription =
  sub_userId :: uuid
  sub_masjidId :: uuid
  sub_preferences :: "preferences option"
  sub_isMuted :: bool
  sub_muteUntil :: "instant option"

record userDevice =
  d_id :: uuid
  d_userId :: uuid
  d_fcmToken :: "string option"
  d_voipToken :: "string option"
  d_platform :: platform
  d_isActive :: bool
  d_isWakeOnSilentEnabled :: bool

datatype notificationStatus = Queued | Sent | SendFailed

record notificationLog =
  nl_userId :: uuid
  nl_deviceId :: uuid
  nl_masjidId :: uuid
  nl_broadcastId :: uuid
  nl_status :: notificationStatus
  nl_provider :: "string option"
  nl_error :: "string option"

text \<open>A queue job: its name, the payload fields the handlers read, and the options.\<close>

record job =
  job_name :: string
  job_broadcastId :: "uuid option"
  job_masjidId :: "uuid option"
  job_prayerName :: "prayer option"
  job_endedReason :: "string option"
  job_roomName :: "string option"
  job_delay :: "rat option"
  job_jobId :: "string option"

text \<open>An entry of the in-memory relay table of services/hls.js.\<close>

record relay =
  relay_roomName :: string
  relay_egressId :: "string option"
  relay_rtmpUrl :: string
  relay_pid :: "nat option"

text \<open>The data message built by the notifications worker (worker.js lines 68 to 77).\<close>

record payload =
  p_action :: string
  p_broadcastId :: uuid
  p_masjidId :: uuid
  p_prayerName :: string
  p_roomName :: string
  p_livekitUrl :: string
  p_token :: string
  p_streamUrl :: string

text \<open>
  Calls to the collaborators, in the order they are made. A push call is tagged with the
  user and the device of the recipient row it is made for.
\<close>

datatype effect =
    CreateRoom string
  | DeleteRoom string
  | KillProcess nat
  | StopEgress string
  | LogWarn string
  | VoipPush uuid uuid "string option" payload
  | FcmData uuid uuid "string option" payload

datatype sendOutcome = Delivered | Rejected "string option"

datatype roomOutcome = RoomCreated | RoomAlreadyExists | RoomFailed string

text \<open>
  The configuration module and the outcomes of the provider calls. The numeric options are
  finite numbers; \<open>None\<close> stands for an absent value or NaN.
\<close>

record env =
  BROADCAST_MAX_MINUTES :: "rat option"
  HLS_ENABLED :: bool
  HLS_PUBLIC_BASE_URL :: "string option"
  HLS_SIGNING_SECRET :: "string option"
  HLS_URL_TTL_SECONDS :: "rat option"
  LIVEKIT_URL :: "string option"
  LIVEKIT_API_KEY :: "string option"
  LIVEKIT_API_SECRET :: "string option"
  createRoom :: "string \<Rightarrow> roomOutcome"
  killThrows :: "nat \<Rightarrow> bool"
  stopEgressThrows :: "string \<Rightarrow> bool"
  mintToken :: "uuid \<Rightarrow> string \<Rightarrow> bool \<Rightarrow> string"
  fcmReady :: bool
  apnsReady :: bool
  fcmSend :: "string \<Rightarrow> payload \<Rightarrow> sendOutcome"
  apnsSend :: "string \<Rightarrow> payload \<Rightarrow> sendOutcome"

record sys =
  broadcasts :: "broadcast list"
  masjids :: "masjid list"
  masjidAdmins :: "masjidAdmin list"
  subscriptions :: "subscription list"
  userDevices :: "userDevice list"
  notificationLogs :: "notificationLog list"
  notificationQueue :: "job list"
  broadcastQueue :: "job list"
  activeRelays :: "uuid \<rightharpoonup> relay"
  effects :: "effect list"

section \<open>JavaScript helpers\<close>

text \<open>A string is truthy when it is present and not empty.\<close>

definition truthy :: "string option \<Rightarrow> bool" where
  "truthy x = (case x of None \<Rightarrow> False | Some v \<Rightarrow> v \<noteq> [])"

text \<open>The operator \<^verbatim>\<open>a ?? b\<close>.\<close>

definition nullish :: "'a option \<Rightarrow> 'a option \<Rightarrow> 'a option" where
  "nullish a b = (case a of None \<Rightarrow> b | Some v \<Rightarrow> Some v)"

definition job0 :: "string \<Rightarrow> job" where
  "job0 n = \<lparr> job_name = n, job_broadcastId = None, job_masjidId = None,
     job_prayerName = None, job_endedReason = None, job_roomName = None,
     job_delay = None, job_jobId = None \<rparr>"

text \<open>Decimal rendering of an integer, as a template literal prints it.\<close>

fun dec_nat :: "nat \<Rightarrow> string" where
  "dec_nat n = (if n < 10 then [''0123456789'' ! n]
     else dec_nat (n div 10) @ [''0123456789'' ! (n mod 10)])"

declare dec_nat.simps [simp del]

definition dec_int :: "int \<Rightarrow> string" where
  "dec_int i = (if i < 0 then CHR ''-'' # dec_nat (nat (- i)) else dec_nat (nat i))"

text \<open>\<^verbatim>\<open>new Date(x)\<close> drops the fraction of a millisecond, towards zero.\<close>

definition timeClip :: "rat \<Rightarrow> instant" where
  "timeClip x = (if 0 \<le> x then \<lfloor>x\<rfloor> else \<lceil>x\<rceil>)"

section \<open>Queries on the broadcasts table\<close>

text \<open>
  A select returns an object holding the listed columns only; reading any other property
  of it gives \<^verbatim>\<open>undefined\<close>, which is \<open>None\<close> here as \<^verbatim>\<open>null\<close> is.
\<close>

record broadcastRow =
  r_id :: "uuid option"
  r_masjidId :: "uuid option"
  r_status :: "status option"
  r_prayerName :: "prayer option"
  r_streamProvider :: "string option"
  r_streamRoomId :: "string option"
  r_audioUrl :: "string option"
  r_hlsUrl :: "string option"
  r_startedAt :: "instant option"

definition pick :: "string list \<Rightarrow> string \<Rightarrow> 'a option \<Rightarrow> 'a option" where
  "pick cols c v = (if c \<in> set cols then v else None)"

definition selectRow :: "string list \<Rightarrow> broadcast \<Rightarrow> broadcastRow" where
  "selectRow cols b = \<lparr>
     r_id = pick cols ''id'' (Some (b_id b)),
     r_masjidId = pick cols ''masjidId'' (Some (b_masjidId b)),
     r_status = pick cols ''status'' (Some (b_status b)),
     r_prayerName = pick cols ''prayerName'' (b_prayerName b),
     r_streamProvider = pick cols ''streamProvider'' (b_streamProvider b),
     r_streamRoomId = pick cols ''streamRoomId'' (b_streamRoomId b),
     r_audioUrl = pick cols ''audioUrl'' (b_audioUrl b),
     r_hlsUrl = pick cols ''hlsUrl'' (b_hlsUrl b),
     r_startedAt = pick cols ''startedAt'' (b_startedAt b) \<rparr>"

text \<open>\<^verbatim>\<open>select(cols).from(broadcasts).where(eq(broadcasts.id, id)).limit(1)\<close>\<close>

definition selectBroadcast :: "string list \<Rightarrow> uuid \<Rightarrow> broadcast list \<Rightarrow> broadcastRow option" where
  "selectBroadcast cols bid bs = map_option (selectRow cols) (find (\<lambda>b. b_id b = bid) bs)"

text \<open>\<^verbatim>\<open>update(broadcasts).set(f).where(eq(broadcasts.id, id)).returning(...)\<close>\<close>

definition updateBroadcast :: "uuid option \<Rightarrow> (broadcast \<Rightarrow> broadcast) \<Rightarrow> broadcast list \<Rightarrow> broadcast list" where
  "updateBroadcast bid f bs = map (\<lambda>b. if Some (b_id b) = bid then f b else b) bs"

definition returning :: "uuid option \<Rightarrow> (broadcast \<Rightarrow> broadcast) \<Rightarrow> broadcast list \<Rightarrow> broadcast list" where
  "returning bid f bs = map f (filter (\<lambda>b. Some (b_id b) = bid) bs)"

definition endJob :: "broadcast \<Rightarrow> job" where
  "endJob u = (job0 ''broadcast-end'')\<lparr> job_broadcastId := Some (b_id u), job_masjidId := Some (b_masjidId u) \<rparr>"

section \<open>Relay table and room service (services/hls.js, services/livekit.js)\<close>

definition hasLivekitConfig :: "env \<Rightarrow> bool" where
  "hasLivekitConfig e = (truthy (LIVEKIT_URL e) \<and> truthy (LIVEKIT_API_KEY e) \<and> truthy (LIVEKIT_API_SECRET e))"

definition getLivekitUrl :: "env \<Rightarrow> string option" where
  "getLivekitUrl e = LIVEKIT_URL e"

definition isHlsEnabled :: "env \<Rightarrow> bool" where
  "isHlsEnabled e = HLS_ENABLED e"

definition addEffects :: "effect list \<Rightarrow> sys \<Rightarrow> sys" where
  "addEffects xs s = s\<lparr> effects := effects s @ xs \<rparr>"

definition ensureLivekitRoom :: "env \<Rightarrow> string \<Rightarrow> sys \<Rightarrow> error option \<times> sys" where
  "ensureLivekitRoom e roomName s =
     (if \<not> hasLivekitConfig e then (None, s)
      else case createRoom e roomName of
          RoomCreated \<Rightarrow> (None, addEffects [CreateRoom roomName] s)
        | RoomAlreadyExists \<Rightarrow> (None, addEffects [CreateRoom roomName] s)
        | RoomFailed msg \<Rightarrow> (Some (ProviderError msg), addEffects [CreateRoom roomName] s))"

definition deleteLivekitRoom :: "env \<Rightarrow> string option \<Rightarrow> sys \<Rightarrow> sys" where
  "deleteLivekitRoom e roomName s =
     (if \<not> hasLivekitConfig e \<or> \<not> truthy roomName then s
      else case roomName of None \<Rightarrow> s | Some n \<Rightarrow> addEffects [DeleteRoom n] s)"

definition stopLivekitEgress :: "env \<Rightarrow> string \<Rightarrow> sys \<Rightarrow> sys" where
  "stopLivekitEgress e egressId s =
     (if \<not> hasLivekitConfig e \<or> egressId = [] then s
      else if stopEgressThrows e egressId
        then addEffects [StopEgress egressId, LogWarn ''Failed to stop LiveKit egress''] s
        else addEffects [StopEgress egressId] s)"

definition stopHlsRelay :: "env \<Rightarrow> uuid \<Rightarrow> sys \<Rightarrow> bool option \<times> sys" where
  "stopHlsRelay e broadcastId s =
     (case activeRelays s broadcastId of
        None \<Rightarrow> (None, s)
      | Some r \<Rightarrow>
          let s1 = (case relay_pid r of
                      None \<Rightarrow> s
                    | Some p \<Rightarrow> if p = 0 then s
                        else if killThrows e p
                          then addEffects [KillProcess p, LogWarn ''Failed to stop ffmpeg process''] s
                          else addEffects [KillProcess p] s);
              s2 = (if truthy (relay_egressId r)
                    then (case relay_egressId r of None \<Rightarrow> s1 | Some g \<Rightarrow> stopLivekitEgress e g s1)
                    else s1)
          in (Some True, s2\<lparr> activeRelays := (activeRelays s2)(broadcastId := None) \<rparr>))"

section \<open>Broadcast lifecycle (controllers/broadcast.controller.js)\<close>

definition DEFAULT_BROADCAST_MAX_MINUTES :: rat where
  "DEFAULT_BROADCAST_MAX_MINUTES = 15"

definition getBroadcastMaxMinutes :: "env \<Rightarrow> rat" where
  "getBroadcastMaxMinutes e =
     (case BROADCAST_MAX_MINUTES e of
        Some parsed \<Rightarrow> if parsed > 0 then parsed else DEFAULT_BROADCAST_MAX_MINUTES
      | None \<Rightarrow> DEFAULT_BROADCAST_MAX_MINUTES)"

definition isBroadcastExpired :: "env \<Rightarrow> instant \<Rightarrow> instant option \<Rightarrow> bool" where
  "isBroadcastExpired e now startedAt =
     (case startedAt of
        None \<Rightarrow> False
      | Some t \<Rightarrow> of_int (now - t) \<ge> getBroadcastMaxMinutes e * 60 * 1000)"

definition markCompleted :: "instant \<Rightarrow> string option \<Rightarrow> broadcast \<Rightarrow> broadcast" where
  "markCompleted now reason b =
     b\<lparr> b_status := Completed, b_endedAt := Some now, b_endedReason := reason, b_updatedAt := now \<rparr>"

definition markBroadcastExpired :: "instant \<Rightarrow> uuid option \<Rightarrow> sys \<Rightarrow> sys" where
  "markBroadcastExpired now broadcastId s =
     (let f = markCompleted now (Some ''max_duration_reached'');
          updated = returning broadcastId f (broadcasts s);
          s1 = s\<lparr> broadcasts := updateBroadcast broadcastId f (broadcasts s) \<rparr>
      in case updated of
           [] \<Rightarrow> s1
         | u # _ \<Rightarrow> s1\<lparr> notificationQueue := notificationQueue s1 @ [endJob u] \<rparr>)"

definition requireMasjidAuthority :: "uuid \<Rightarrow> uuid option \<Rightarrow> sys \<Rightarrow> error option" where
  "requireMasjidAuthority actorId masjidId s =
     (if \<exists>a \<in> set (masjidAdmins s). ma_userId a = actorId \<and> Some (ma_masjidId a) = masjidId
      then None
      else Some (ApiError 403 ''forbidden'' ''Insufficient privileges''))"

record startBody =
  sb_streamProvider :: "string option"
  sb_streamRoomId :: "string option"
  sb_audioUrl :: "string option"

definition startBroadcast_columns :: "string list" where
  "startBroadcast_columns =
     [''id'', ''masjidId'', ''status'', ''prayerName'', ''streamProvider'', ''streamRoomId'', ''audioUrl'']"

definition startJob :: "broadcast \<Rightarrow> job" where
  "startJob u = (job0 ''broadcast-start'')\<lparr> job_broadcastId := Some (b_id u),
     job_masjidId := Some (b_masjidId u), job_prayerName := b_prayerName u \<rparr>"

definition autoEndJob :: "env \<Rightarrow> broadcast \<Rightarrow> job" where
  "autoEndJob e u = (job0 ''broadcast-auto-end'')\<lparr> job_broadcastId := Some (b_id u),
     job_endedReason := Some ''max_duration_reached'',
     job_delay := Some (max 1 (getBroadcastMaxMinutes e) * 60 * 1000),
     job_jobId := Some (''broadcast-auto-end-'' @ b_id u) \<rparr>"

definition hlsStartJob :: "broadcast \<Rightarrow> string \<Rightarrow> job" where
  "hlsStartJob u roomName = (job0 ''hls-start'')\<lparr> job_broadcastId := Some (b_id u),
     job_roomName := Some roomName \<rparr>"

text \<open>The update of startBroadcast (lines 321 to 331); an undefined value leaves the column alone.\<close>

definition liveUpdate :: "instant \<Rightarrow> string \<Rightarrow> string option \<Rightarrow> string option \<Rightarrow> broadcast \<Rightarrow> broadcast" where
  "liveUpdate now provider roomId audio b =
     b\<lparr> b_status := Live,
        b_streamProvider := Some provider,
        b_streamRoomId := (case roomId of None \<Rightarrow> b_streamRoomId b | Some v \<Rightarrow> Some v),
        b_audioUrl := (case audio of None \<Rightarrow> b_audioUrl b | Some v \<Rightarrow> Some v),
        b_startedAt := Some now,
        b_updatedAt := now \<rparr>"

text \<open>Lines 321 to 366: the update and the three enqueues.\<close>

definition goLiveCommit ::
  "env \<Rightarrow> instant \<Rightarrow> uuid \<Rightarrow> string \<Rightarrow> string option \<Rightarrow> string option \<Rightarrow> sys \<Rightarrow> (error + broadcast) \<times> sys" where
  "goLiveCommit e now bid provider roomId audio s =
     (let f = liveUpdate now provider roomId audio;
          updated = returning (Some bid) f (broadcasts s);
          s2 = s\<lparr> broadcasts := updateBroadcast (Some bid) f (broadcasts s) \<rparr>
      in (case updated of
            [] \<Rightarrow> (Inl (TypeError ''updatedBroadcast is undefined''), s2)
          | u # _ \<Rightarrow>
             (let s3 = s2\<lparr> notificationQueue := notificationQueue s2 @ [startJob u] \<rparr>;
                  s4 = (case roomId of
                          None \<Rightarrow> s3
                        | Some rn \<Rightarrow>
                           if isHlsEnabled e \<and> rn \<noteq> []
                           then s3\<lparr> broadcastQueue := broadcastQueue s3 @ [hlsStartJob u rn] \<rparr>
                           else s3);
                  s5 = s4\<lparr> broadcastQueue := broadcastQueue s4 @ [autoEndJob e u] \<rparr>
              in (Inr u, s5))))"

text \<open>Lines 310 to 319 and on: the part of startBroadcast after the guards and the authority check.\<close>

definition goLive :: "env \<Rightarrow> instant \<Rightarrow> uuid \<Rightarrow> startBody \<Rightarrow> broadcastRow \<Rightarrow> sys \<Rightarrow> (error + broadcast) \<times> sys" where
  "goLive e now bid body rec s =
     (let roomId0 = nullish (sb_streamRoomId body) (r_streamRoomId rec);
          provider = (case nullish (sb_streamProvider body) (r_streamProvider rec) of
                        None \<Rightarrow> ''livekit'' | Some p \<Rightarrow> p);
          audio0 = nullish (sb_audioUrl body) (r_audioUrl rec);
          roomName = ''broadcast-'' @ (case r_id rec of None \<Rightarrow> ''undefined'' | Some i \<Rightarrow> i)
      in if \<not> truthy roomId0 \<and> provider = ''livekit'' \<and> truthy (getLivekitUrl e)
         then (case ensureLivekitRoom e roomName s of
                 (Some x, s1) \<Rightarrow> (Inl x, s1)
               | (None, s1) \<Rightarrow>
                  goLiveCommit e now bid provider (Some roomName) (nullish audio0 (getLivekitUrl e)) s1)
         else goLiveCommit e now bid provider roomId0 audio0 s)"

definition startBroadcast ::
  "env \<Rightarrow> instant \<Rightarrow> uuid option \<Rightarrow> uuid option \<Rightarrow> startBody \<Rightarrow> sys \<Rightarrow> (error + broadcast) \<times> sys" where
  "startBroadcast e now actor paramsId body s =
     (case actor of
        None \<Rightarrow> (Inl (ApiError 401 ''unauthorized'' ''Missing auth context''), s)
      | Some actorId \<Rightarrow>
         (if actorId = [] then (Inl (ApiError 401 ''unauthorized'' ''Missing auth context''), s)
          else (case paramsId of
             None \<Rightarrow> (Inl (ApiError 400 ''validation_error'' ''Missing broadcast id''), s)
           | Some bid \<Rightarrow>
              (if bid = [] then (Inl (ApiError 400 ''validation_error'' ''Missing broadcast id''), s)
               else (case selectBroadcast startBroadcast_columns bid (broadcasts s) of
                  None \<Rightarrow> (Inl (ApiError 404 ''not_found'' ''Broadcast not found''), s)
                | Some rec \<Rightarrow>
                   (if r_status rec = Some Live then
                      (if isBroadcastExpired e now (r_startedAt rec)
                       then (Inl (ApiError 409 ''conflict'' ''Broadcast expired''),
                             markBroadcastExpired now (r_id rec) s)
                       else (Inl (ApiError 409 ''conflict'' ''Broadcast already live''), s))
                    else if r_status rec = Some Completed
                      then (Inl (ApiError 409 ''conflict'' ''Broadcast already ended''), s)
                    else (case requireMasjidAuthority actorId (r_masjidId rec) s of
                            Some x \<Rightarrow> (Inl x, s)
                          | None \<Rightarrow> goLive e now bid body rec s)))))))"

record endBody =
  eb_recordingUrl :: "string option"
  eb_endedReason :: "string option"

definition endBroadcast_columns :: "string list" where
  "endBroadcast_columns = [''id'', ''masjidId'', ''status'']"

definition hlsStopJob :: "broadcast \<Rightarrow> job" where
  "hlsStopJob u = (job0 ''hls-stop'')\<lparr> job_broadcastId := Some (b_id u) \<rparr>"

text \<open>The part of endBroadcast after the status guard and the authority check.\<close>

definition finish :: "env \<Rightarrow> instant \<Rightarrow> uuid \<Rightarrow> endBody \<Rightarrow> sys \<Rightarrow> (error + broadcast) \<times> sys" where
  "finish e now bid body s =
     (let f = (\<lambda>b. b\<lparr> b_status := Completed,
                 b_endedAt := Some now,
                 b_recordingUrl := (case eb_recordingUrl body of
                                      None \<Rightarrow> b_recordingUrl b | Some v \<Rightarrow> Some v),
                 b_endedReason := (case eb_endedReason body of
                                      None \<Rightarrow> b_endedReason b | Some v \<Rightarrow> Some v),
                 b_updatedAt := now \<rparr>);
          updated = returning (Some bid) f (broadcasts s);
          s1 = s\<lparr> broadcasts := updateBroadcast (Some bid) f (broadcasts s) \<rparr>
      in (case updated of
            [] \<Rightarrow> (Inl (TypeError ''updatedBroadcast is undefined''), s1)
          | u # _ \<Rightarrow>
             (let s2 = s1\<lparr> notificationQueue := notificationQueue s1 @ [endJob u] \<rparr>;
                  s3 = (if isHlsEnabled e
                        then s2\<lparr> broadcastQueue := broadcastQueue s2 @ [hlsStopJob u] \<rparr>
                        else s2)
              in (Inr u, s3))))"

definition endBroadcast ::
  "env \<Rightarrow> instant \<Rightarrow> uuid option \<Rightarrow> uuid option \<Rightarrow> endBody \<Rightarrow> sys \<Rightarrow> (error + broadcast) \<times> sys" where
  "endBroadcast e now actor paramsId body s =
     (case actor of
        None \<Rightarrow> (Inl (ApiError 401 ''unauthorized'' ''Missing auth context''), s)
      | Some actorId \<Rightarrow>
         (if actorId = [] then (Inl (ApiError 401 ''unauthorized'' ''Missing auth context''), s)
          else (case paramsId of
             None \<Rightarrow> (Inl (ApiError 400 ''validation_error'' ''Missing broadcast id''), s)
           | Some bid \<Rightarrow>
              (if bid = [] then (Inl (ApiError 400 ''validation_error'' ''Missing broadcast id''), s)
               else (case selectBroadcast endBroadcast_columns bid (broadcasts s) of
                  None \<Rightarrow> (Inl (ApiError 404 ''not_found'' ''Broadcast not found''), s)
                | Some rec \<Rightarrow>
                   (if r_status rec = Some Completed
                      then (Inl (ApiError 409 ''conflict'' ''Broadcast already ended''), s)
                    else (case requireMasjidAuthority actorId (r_masjidId rec) s of
                            Some x \<Rightarrow> (Inl x, s)
                          | None \<Rightarrow> finish e now bid body s)))))))"

section \<open>Auto-end job and periodic sweep (worker.js)\<close>

definition autoEnd_columns :: "string list" where
  "autoEnd_columns = [''id'', ''status'', ''streamRoomId'']"

definition workerMaxMinutes :: "env \<Rightarrow> rat" where
  "workerMaxMinutes e =
     (case BROADCAST_MAX_MINUTES e of
        Some m \<Rightarrow> if m > 0 then m else 15
      | None \<Rightarrow> 15)"

definition rescheduleJob :: "uuid \<Rightarrow> string option \<Rightarrow> rat \<Rightarrow> instant \<Rightarrow> job" where
  "rescheduleJob bid reason remainingMs now = (job0 ''broadcast-auto-end'')\<lparr>
     job_broadcastId := Some bid,
     job_endedReason := nullish reason (Some ''max_duration_reached''),
     job_delay := Some remainingMs,
     job_jobId := Some (''broadcast-auto-end-'' @ bid @ ''-'' @ dec_int now) \<rparr>"

text \<open>Lines 174 to 198: complete the broadcast, notify, stop the relay, release the room.\<close>

definition completeBroadcast :: "env \<Rightarrow> instant \<Rightarrow> uuid \<Rightarrow> string option \<Rightarrow> broadcastRow \<Rightarrow> sys \<Rightarrow> sys" where
  "completeBroadcast e now bid reason rec s =
     (let f = markCompleted now (nullish reason (Some ''max_duration_reached''));
          updated = returning (Some bid) f (broadcasts s);
          s1 = s\<lparr> broadcasts := updateBroadcast (Some bid) f (broadcasts s) \<rparr>;
          s2 = (case updated of
                  [] \<Rightarrow> s1
                | u # _ \<Rightarrow> s1\<lparr> notificationQueue := notificationQueue s1 @ [endJob u] \<rparr>);
          s3 = snd (stopHlsRelay e bid s2)
      in deleteLivekitRoom e (r_streamRoomId rec) s3)"

text \<open>
  The handler of the broadcasts queue for a job that is neither hls-start nor hls-stop
  (lines 143 to 199).
\<close>

definition autoEndHandler :: "env \<Rightarrow> instant \<Rightarrow> job \<Rightarrow> sys \<Rightarrow> sys" where
  "autoEndHandler e now j s =
     (case job_broadcastId j of
        None \<Rightarrow> s
      | Some bid \<Rightarrow>
         (if bid = [] then s
          else (case selectBroadcast autoEnd_columns bid (broadcasts s) of
             None \<Rightarrow> s
           | Some rec \<Rightarrow>
              (if r_status rec \<noteq> Some Live then s
               else (let targetMs = workerMaxMinutes e * 60 * 1000
                     in (case r_startedAt rec of
                           None \<Rightarrow> completeBroadcast e now bid (job_endedReason j) rec s
                         | Some t \<Rightarrow>
                            (let elapsedMs = of_int (now - t)
                             in if elapsedMs < targetMs - 1000
                                then s\<lparr> broadcastQueue := broadcastQueue s @
                                       [rescheduleJob bid (job_endedReason j)
                                          (max 1000 (targetMs - elapsedMs)) now] \<rparr>
                                else completeBroadcast e now bid (job_endedReason j) rec s)))))))"

text \<open>The names worker.js imports from drizzle-orm (line 1).\<close>

definition worker_imports :: "string list" where
  "worker_imports = [''and'', ''eq'']"

text \<open>The first of the names that is not bound in the module: using it throws.\<close>

definition unbound :: "string list \<Rightarrow> string list \<Rightarrow> string option" where
  "unbound scope names = find (\<lambda>n. n \<notin> set scope) names"

definition sweepItem :: "env \<Rightarrow> instant \<Rightarrow> broadcast \<Rightarrow> sys \<Rightarrow> sys" where
  "sweepItem e now item s =
     (let s1 = s\<lparr> broadcasts := updateBroadcast (Some (b_id item))
                    (markCompleted now (Some ''max_duration_reached'')) (broadcasts s) \<rparr>;
          s2 = s1\<lparr> notificationQueue := notificationQueue s1 @ [endJob item] \<rparr>;
          s3 = snd (stopHlsRelay e (b_id item) s2)
      in deleteLivekitRoom e (b_streamRoomId item) s3)"

text \<open>
  cleanupExpiredBroadcasts, with the names bound in its module as a parameter: the query
  is built from \<^verbatim>\<open>and\<close>, \<^verbatim>\<open>eq\<close> and \<^verbatim>\<open>lt\<close>.
\<close>

definition cleanupExpiredBroadcastsIn :: "string list \<Rightarrow> env \<Rightarrow> instant \<Rightarrow> sys \<Rightarrow> error option \<times> sys" where
  "cleanupExpiredBroadcastsIn scope e now s =
     (let maxMinutes = (case BROADCAST_MAX_MINUTES e of Some m \<Rightarrow> m | None \<Rightarrow> 15);
          cutoff = timeClip (of_int now - max 1 maxMinutes * 60 * 1000)
      in (case unbound scope [''and'', ''eq'', ''lt''] of
            Some n \<Rightarrow> (Some (ReferenceError (n @ '' is not defined'')), s)
          | None \<Rightarrow>
             (let expired = filter (\<lambda>b. b_status b = Live \<and>
                               (case b_startedAt b of None \<Rightarrow> False | Some t \<Rightarrow> t < cutoff))
                             (broadcasts s)
              in if expired = [] then (None, s)
                 else (None, fold (sweepItem e now) expired s))))"

definition cleanupExpiredBroadcasts :: "env \<Rightarrow> instant \<Rightarrow> sys \<Rightarrow> error option \<times> sys" where
  "cleanupExpiredBroadcasts = cleanupExpiredBroadcastsIn worker_imports"

section \<open>Notification fan-out (worker.js, services/push.js)\<close>

datatype eventType = Start | End

definition eventTypeOf :: "string \<Rightarrow> eventType" where
  "eventTypeOf name = (if name = ''broadcast-end'' then End else Start)"

definition prayerStr :: "prayer \<Rightarrow> string" where
  "prayerStr p = (case p of Fajr \<Rightarrow> ''Fajr'' | Dhuhr \<Rightarrow> ''Dhuhr'' | Asr \<Rightarrow> ''Asr''
     | Maghrib \<Rightarrow> ''Maghrib'' | Isha \<Rightarrow> ''Isha'' | Juma \<Rightarrow> ''Juma'')"

text \<open>A row of the join of subscriptions and user devices (lines 32 to 47).\<close>

record recipient =
  rc_userId :: uuid
  rc_preferences :: "preferences option"
  rc_isMuted :: bool
  rc_muteUntil :: "instant option"
  rc_deviceId :: uuid
  rc_fcmToken :: "string option"
  rc_voipToken :: "string option"
  rc_platform :: platform
  rc_wakeOnSilentEnabled :: bool
  rc_deviceActive :: bool

definition joinRow :: "subscription \<Rightarrow> userDevice \<Rightarrow> recipient" where
  "joinRow sub d = \<lparr> rc_userId = sub_userId sub, rc_preferences = sub_preferences sub,
     rc_isMuted = sub_isMuted sub, rc_muteUntil = sub_muteUntil sub, rc_deviceId = d_id d,
     rc_fcmToken = d_fcmToken d, rc_voipToken = d_voipToken d, rc_platform = d_platform d,
     rc_wakeOnSilentEnabled = d_isWakeOnSilentEnabled d, rc_deviceActive = d_isActive d \<rparr>"

definition recipients :: "uuid \<Rightarrow> sys \<Rightarrow> recipient list" where
  "recipients masjidId s =
     concat (map (\<lambda>sub. map (joinRow sub)
                    (filter (\<lambda>d. d_userId d = sub_userId sub \<and> d_isActive d) (userDevices s)))
                 (filter (\<lambda>sub. sub_masjidId sub = masjidId) (subscriptions s)))"

record pushResult =
  pr_status :: notificationStatus
  pr_provider :: "string option"
  pr_error :: "string option"

definition sendFcmData :: "env \<Rightarrow> string option \<Rightarrow> payload \<Rightarrow> pushResult" where
  "sendFcmData e token data =
     (case token of
        None \<Rightarrow> \<lparr> pr_status = SendFailed, pr_provider = Some ''fcm'', pr_error = Some ''missing_token'' \<rparr>
      | Some tk \<Rightarrow>
         if tk = [] then \<lparr> pr_status = SendFailed, pr_provider = Some ''fcm'', pr_error = Some ''missing_token'' \<rparr>
         else if \<not> fcmReady e
           then \<lparr> pr_status = SendFailed, pr_provider = Some ''fcm'', pr_error = Some ''fcm_not_configured'' \<rparr>
         else (case fcmSend e tk data of
                 Delivered \<Rightarrow> \<lparr> pr_status = Sent, pr_provider = Some ''fcm'', pr_error = None \<rparr>
               | Rejected m \<Rightarrow> \<lparr> pr_status = SendFailed, pr_provider = Some ''fcm'',
                     pr_error = nullish m (Some ''fcm_failed'') \<rparr>))"

definition sendVoipPush :: "env \<Rightarrow> string option \<Rightarrow> payload \<Rightarrow> pushResult" where
  "sendVoipPush e token data =
     (case token of
        None \<Rightarrow> \<lparr> pr_status = SendFailed, pr_provider = Some ''apns'', pr_error = Some ''missing_token'' \<rparr>
      | Some tk \<Rightarrow>
         if tk = [] then \<lparr> pr_status = SendFailed, pr_provider = Some ''apns'', pr_error = Some ''missing_token'' \<rparr>
         else if \<not> apnsReady e
           then \<lparr> pr_status = SendFailed, pr_provider = Some ''apns'', pr_error = Some ''apns_not_configured'' \<rparr>
         else (case apnsSend e tk data of
                 Delivered \<Rightarrow> \<lparr> pr_status = Sent, pr_provider = Some ''apns'', pr_error = None \<rparr>
               | Rejected m \<Rightarrow> \<lparr> pr_status = SendFailed, pr_provider = Some ''apns'',
                     pr_error = nullish m (Some ''apns_failed'') \<rparr>))"

definition getHlsPublicUrl :: "env \<Rightarrow> uuid \<Rightarrow> string option" where
  "getHlsPublicUrl e broadcastId =
     (if \<not> truthy (HLS_PUBLIC_BASE_URL e) then None
      else map_option (\<lambda>base. base @ ''/broadcasts/'' @ broadcastId @ ''/index.m3u8'') (HLS_PUBLIC_BASE_URL e))"

definition createLivekitToken :: "env \<Rightarrow> uuid \<Rightarrow> string \<Rightarrow> bool \<Rightarrow> string option" where
  "createLivekitToken e identity roomName canPublish =
     (if \<not> hasLivekitConfig e then None else Some (mintToken e identity roomName canPublish))"

definition orEmpty :: "string option \<Rightarrow> string" where
  "orEmpty x = (case x of None \<Rightarrow> [] | Some v \<Rightarrow> v)"

definition buildPayload ::
  "env \<Rightarrow> eventType \<Rightarrow> uuid \<Rightarrow> uuid \<Rightarrow> prayer option \<Rightarrow> broadcastRow \<Rightarrow> recipient \<Rightarrow> payload" where
  "buildPayload e eventType broadcastId masjidId prayerName broadcastRecord record =
     (let roomName = r_streamRoomId broadcastRecord;
          livekitUrl = nullish (r_audioUrl broadcastRecord) (getLivekitUrl e);
          hlsUrl = nullish (r_hlsUrl broadcastRecord)
                     (if isHlsEnabled e then getHlsPublicUrl e broadcastId else None);
          token = (if eventType = Start \<and> truthy roomName \<and> \<not> truthy hlsUrl
                   then createLivekitToken e (rc_userId record) (orEmpty roomName) False
                   else None)
      in \<lparr> p_action = (if eventType = Start then ''GO_LIVE'' else ''END''),
           p_broadcastId = broadcastId,
           p_masjidId = masjidId,
           p_prayerName = orEmpty (map_option prayerStr prayerName),
           p_roomName = orEmpty roomName,
           p_livekitUrl = orEmpty livekitUrl,
           p_token = orEmpty token,
           p_streamUrl = orEmpty hlsUrl \<rparr>)"

text \<open>Lines 56 and 57: the muted prayers of a row, empty unless the preference is an array.\<close>

definition mutedPrayersOf :: "preferences option \<Rightarrow> prayer list" where
  "mutedPrayersOf prefs =
     (case prefs of
        None \<Rightarrow> []
      | Some p \<Rightarrow> (case mutedPrayers p of None \<Rightarrow> [] | Some ps \<Rightarrow> ps))"

text \<open>
  One turn of the loop of lines 52 to 98: \<open>None\<close> where the loop continues with the next
  row, otherwise the push call made and the log row pushed for this row.
\<close>

definition deliver ::
  "env \<Rightarrow> instant \<Rightarrow> eventType \<Rightarrow> uuid \<Rightarrow> uuid \<Rightarrow> prayer option \<Rightarrow> broadcastRow \<Rightarrow> recipient
     \<Rightarrow> (effect \<times> notificationLog) option" where
  "deliver e now eventType broadcastId masjidId prayerName broadcastRecord record =
     (if rc_isMuted record then None
      else if (case rc_muteUntil record of None \<Rightarrow> False | Some t \<Rightarrow> t > now) then None
      else if (case prayerName of
                 None \<Rightarrow> False
               | Some p \<Rightarrow> p \<in> set (mutedPrayersOf (rc_preferences record))) then None
      else
        (let data = buildPayload e eventType broadcastId masjidId prayerName broadcastRecord record;
             call = (if rc_platform record = Ios
                     then VoipPush (rc_userId record) (rc_deviceId record) (rc_voipToken record) data
                     else FcmData (rc_userId record) (rc_deviceId record) (rc_fcmToken record) data);
             result = (if rc_platform record = Ios
                       then sendVoipPush e (rc_voipToken record) data
                       else sendFcmData e (rc_fcmToken record) data)
         in Some (call, \<lparr> nl_userId = rc_userId record, nl_deviceId = rc_deviceId record,
                    nl_masjidId = masjidId, nl_broadcastId = broadcastId,
                    nl_status = pr_status result, nl_provider = pr_provider result,
                    nl_error = pr_error result \<rparr>)))"

text \<open>The recipient a push call was made for.\<close>

definition pushTarget :: "effect \<Rightarrow> (uuid \<times> uuid) option" where
  "pushTarget c =
     (case c of
        VoipPush u d _ _ \<Rightarrow> Some (u, d)
      | FcmData u d _ _ \<Rightarrow> Some (u, d)
      | _ \<Rightarrow> None)"

fun notifyLoop ::
  "(recipient \<Rightarrow> (effect \<times> notificationLog) option) \<Rightarrow> recipient list
     \<Rightarrow> effect list \<times> notificationLog list \<Rightarrow> effect list \<times> notificationLog list" where
  "notifyLoop f [] (calls, logs) = (calls, logs)"
| "notifyLoop f (record # rest) (calls, logs) =
     (case f record of
        None \<Rightarrow> notifyLoop f rest (calls, logs)
      | Some (c, l) \<Rightarrow> notifyLoop f rest (calls @ [c], logs @ [l]))"

definition notifications_columns :: "string list" where
  "notifications_columns = [''id'', ''streamProvider'', ''streamRoomId'', ''audioUrl'', ''hlsUrl'']"

text \<open>The push calls made and the log rows collected by one run of the notifications worker.\<close>

definition fanOut :: "env \<Rightarrow> instant \<Rightarrow> job \<Rightarrow> sys \<Rightarrow> effect list \<times> notificationLog list" where
  "fanOut e now j s =
     (case job_broadcastId j of
        None \<Rightarrow> ([], [])
      | Some broadcastId \<Rightarrow>
         (case job_masjidId j of
            None \<Rightarrow> ([], [])
          | Some masjidId \<Rightarrow>
             (if broadcastId = [] \<or> masjidId = [] then ([], [])
              else (case selectBroadcast notifications_columns broadcastId (broadcasts s) of
                      None \<Rightarrow> ([], [])
                    | Some broadcastRecord \<Rightarrow>
                        notifyLoop (deliver e now (eventTypeOf (job_name j)) broadcastId masjidId
                                      (job_prayerName j) broadcastRecord)
                          (recipients masjidId s) ([], [])))))"

definition notificationsWorker :: "env \<Rightarrow> instant \<Rightarrow> job \<Rightarrow> sys \<Rightarrow> sys" where
  "notificationsWorker e now j s =
     (case fanOut e now j s of
        (calls, logs) \<Rightarrow> s\<lparr> effects := effects s @ calls,
                              notificationLogs := notificationLogs s @ logs \<rparr>)"

text \<open>The user and the device a log row is about.\<close>

definition logKey :: "notificationLog \<Rightarrow> uuid \<times> uuid" where
  "logKey l = (nl_userId l, nl_deviceId l)"

section \<open>Template expander (scheduler.js)\<close>

record scheduleTemplate =
  t_masjidId :: uuid
  t_prayerName :: prayer
  t_adhanTimeLocal :: string
  t_iqamahTimeLocal :: "string option"
  t_khutbahTimeLocal :: "string option"
  t_isJuma :: "bool option"

record schedule =
  s_masjidId :: uuid
  s_date :: string
  s_prayerName :: prayer
  s_time :: string
  s_adhanAtUtc :: instant
  s_iqamahAtUtc :: "instant option"
  s_khutbahAtUtc :: "instant option"
  s_isJuma :: bool

text \<open>A row of the join of schedule_templates and masjids (lines 95 to 106).\<close>

record templateRow =
  tr_masjidId :: uuid
  tr_prayerName :: prayer
  tr_adhanTimeLocal :: string
  tr_iqamahTimeLocal :: "string option"
  tr_khutbahTimeLocal :: "string option"
  tr_isJuma :: "bool option"
  tr_timezone :: string

text \<open>
  The date library at the time of a run. \<open>localDate zone offset\<close> is
  \<^verbatim>\<open>DateTime.now().setZone(zone).startOf('day').plus({days: offset}).toISODate()\<close>,
  \<open>None\<close> for an invalid zone; it is the same function for all runs within one local day.
  \<open>fromISO text zone\<close> is the UTC instant of \<^verbatim>\<open>DateTime.fromISO(text, {zone})\<close>,
  \<open>None\<close> when the result is invalid.
\<close>

record luxon =
  localDate :: "string \<Rightarrow> nat \<Rightarrow> string option"
  fromISO :: "string \<Rightarrow> string \<Rightarrow> instant option"

definition templateRows :: "scheduleTemplate list \<Rightarrow> masjid list \<Rightarrow> templateRow list" where
  "templateRows tpls ms =
     concat (map (\<lambda>tp. map (\<lambda>m. \<lparr> tr_masjidId = t_masjidId tp, tr_prayerName = t_prayerName tp,
                              tr_adhanTimeLocal = t_adhanTimeLocal tp,
                              tr_iqamahTimeLocal = t_iqamahTimeLocal tp,
                              tr_khutbahTimeLocal = t_khutbahTimeLocal tp,
                              tr_isJuma = t_isJuma tp, tr_timezone = m_timezone m \<rparr>)
                         (filter (\<lambda>m. m_id m = t_masjidId tp) ms)) tpls)"

text \<open>The key of the unique index schedule_day_prayer_uq.\<close>

definition skey :: "schedule \<Rightarrow> uuid \<times> string \<times> prayer" where
  "skey sc = (s_masjidId sc, s_date sc, s_prayerName sc)"

text \<open>An insert into schedules: the unique index rejects a second row with the same key.\<close>

definition insertSchedule :: "schedule \<Rightarrow> schedule list \<Rightarrow> error + schedule list" where
  "insertSchedule row scheds =
     (if skey row \<in> skey ` set scheds then Inl (DbError ''schedule_day_prayer_uq'')
      else Inr (scheds @ [row]))"

text \<open>
  An optional local time of a template as a UTC date: \<open>Inr None\<close> for an absent time,
  \<open>Inl\<close> for an invalid date, which the insert cannot store.
\<close>

definition optionalUtc :: "luxon \<Rightarrow> string \<Rightarrow> string \<Rightarrow> string option \<Rightarrow> error + instant option" where
  "optionalUtc lux dateString zone timeLocal =
     (if \<not> truthy timeLocal then Inr None
      else (case fromISO lux (dateString @ ''T'' @ orEmpty timeLocal) zone of
              None \<Rightarrow> Inl (RangeError ''Invalid time value'')
            | Some i \<Rightarrow> Inr (Some i)))"

text \<open>Line 113: the zone of a template row, with its default.\<close>

definition zoneOf :: "templateRow \<Rightarrow> string" where
  "zoneOf template = (if tr_timezone template = [] then ''Asia/Kolkata'' else tr_timezone template)"

text \<open>Lines 120 to 128: the row already stored for the template and the date, if any.\<close>

definition existingSchedule :: "templateRow \<Rightarrow> string option \<Rightarrow> schedule list \<Rightarrow> schedule option" where
  "existingSchedule template dateString scheds =
     find (\<lambda>sc. s_masjidId sc = tr_masjidId template \<and> Some (s_date sc) = dateString
                \<and> s_prayerName sc = tr_prayerName template) scheds"

text \<open>The text a template literal prints for the date, \<^verbatim>\<open>null\<close> included.\<close>

definition dateText :: "string option \<Rightarrow> string" where
  "dateText dateString = (case dateString of None \<Rightarrow> ''null'' | Some dt \<Rightarrow> dt)"

text \<open>Lines 144 to 153: the row to insert; the date column does not take null.\<close>

definition newSchedule ::
  "templateRow \<Rightarrow> string \<Rightarrow> instant \<Rightarrow> instant option \<Rightarrow> instant option \<Rightarrow> schedule" where
  "newSchedule template dt adhanAtUtc iqamahAtUtc khutbahAtUtc =
     \<lparr> s_masjidId = tr_masjidId template, s_date = dt,
       s_prayerName = tr_prayerName template,
       s_time = tr_adhanTimeLocal template,
       s_adhanAtUtc = adhanAtUtc, s_iqamahAtUtc = iqamahAtUtc,
       s_khutbahAtUtc = khutbahAtUtc,
       s_isJuma = (case tr_isJuma template of
                     None \<Rightarrow> tr_prayerName template = Juma
                   | Some v \<Rightarrow> v) \<rparr>"

text \<open>The body of the inner loop (lines 117 to 155) for one template and one day offset.\<close>

definition expandOne :: "luxon \<Rightarrow> templateRow \<Rightarrow> nat \<Rightarrow> schedule list \<Rightarrow> error option \<times> schedule list" where
  "expandOne lux template offset scheds =
     (let timezone = zoneOf template;
          dateString = localDate lux timezone offset
      in (case existingSchedule template dateString scheds of
            Some existing \<Rightarrow> (None, scheds)
          | None \<Rightarrow>
             (case fromISO lux (dateText dateString @ ''T'' @ tr_adhanTimeLocal template) timezone of
                None \<Rightarrow> (None, scheds)
              | Some adhanAtUtc \<Rightarrow>
                 (case optionalUtc lux (dateText dateString) timezone (tr_iqamahTimeLocal template) of
                    Inl err \<Rightarrow> (Some err, scheds)
                  | Inr iqamahAtUtc \<Rightarrow>
                     (case optionalUtc lux (dateText dateString) timezone (tr_khutbahTimeLocal template) of
                        Inl err \<Rightarrow> (Some err, scheds)
                      | Inr khutbahAtUtc \<Rightarrow>
                         (case dateString of
                            None \<Rightarrow> (Some (DbError ''null value in column date''), scheds)
                          | Some dt \<Rightarrow>
                             (case insertSchedule
                                     (newSchedule template dt adhanAtUtc iqamahAtUtc khutbahAtUtc) scheds of
                                Inl err \<Rightarrow> (Some err, scheds)
                              | Inr scheds' \<Rightarrow> (None, scheds'))))))))"

text \<open>The key a template and a date ask for.\<close>

definition wantedKey :: "templateRow \<Rightarrow> string \<Rightarrow> uuid \<times> string \<times> prayer" where
  "wantedKey template dt = (tr_masjidId template, dt, tr_prayerName template)"

text \<open>A template and offset need no insert: the row is there, or the adhan time is invalid.\<close>

definition settled :: "luxon \<Rightarrow> templateRow \<Rightarrow> nat \<Rightarrow> schedule list \<Rightarrow> bool" where
  "settled lux template offset scheds =
     (existingSchedule template (localDate lux (zoneOf template) offset) scheds \<noteq> None
      \<or> fromISO lux (dateText (localDate lux (zoneOf template) offset) @ ''T'' @ tr_adhanTimeLocal template)
           (zoneOf template) = None)"

text \<open>The two nested loops: every template, day offsets 0 and 1; an exception ends the run.\<close>

definition workItems :: "templateRow list \<Rightarrow> (templateRow \<times> nat) list" where
  "workItems templates = concat (map (\<lambda>template. [(template, 0), (template, 1)]) templates)"

fun runItems :: "luxon \<Rightarrow> (templateRow \<times> nat) list \<Rightarrow> schedule list \<Rightarrow> error option \<times> schedule list" where
  "runItems lux [] scheds = (None, scheds)"
| "runItems lux ((template, offset) # rest) scheds =
     (case expandOne lux template offset scheds of
        (Some err, scheds') \<Rightarrow> (Some err, scheds')
      | (None, scheds') \<Rightarrow> runItems lux rest scheds')"

definition ensureDailySchedulesFromTemplates ::
  "luxon \<Rightarrow> scheduleTemplate list \<Rightarrow> masjid list \<Rightarrow> schedule list \<Rightarrow> error option \<times> schedule list" where
  "ensureDailySchedulesFromTemplates lux tpls ms scheds =
     (let templates = templateRows tpls ms
      in if templates = [] then (None, scheds) else runItems lux (workItems templates) scheds)"

section \<open>Creating a broadcast (controllers/broadcast.controller.js, lines 132 to 268)\<close>





















section \<open>Signed HLS URLs (services/hls.js) and the asset route (getHlsAsset)\<close>

text \<open>
  The runtime the two files call into: HMAC-SHA256, the conversion of a query string to a
  number (\<open>None\<close> when \<^verbatim>\<open>Number(text)\<close> is not finite), the text a template literal
  prints for a number, the verification of an access token (\<open>Inl\<close> when it throws),
  \<^verbatim>\<open>path.basename\<close>, and whether the asset file of a broadcast exists.
\<close>

record tokenPayload =
  tp_id :: "string option"
  tp_sub :: "string option"

record runtime =
  hmacSha256 :: "string \<Rightarrow> string \<Rightarrow> 256 word"
  toNumber :: "string \<Rightarrow> rat option"
  numberText :: "rat \<Rightarrow> string"
  verifyAccessToken :: "string \<Rightarrow> error + tokenPayload"
  pathBasename :: "string \<Rightarrow> string"
  fileExists :: "uuid \<Rightarrow> string \<Rightarrow> bool"

text \<open>The lower-case hex text of a 32-byte digest.\<close>

definition hexDigest :: "256 word \<Rightarrow> string" where
  "hexDigest w =
     map (\<lambda>i. ''0123456789abcdef'' ! unat (take_bit 4 (drop_bit (4 * (63 - i)) w))) [0..<64]"

text \<open>Lines 26 and 27: the expiry of a URL signed at an instant, in seconds.\<close>

definition hlsExpiry :: "env \<Rightarrow> instant \<Rightarrow> rat" where
  "hlsExpiry e now =
     of_int (now div 1000)
       + (case HLS_URL_TTL_SECONDS e of None \<Rightarrow> 900 | Some ttl \<Rightarrow> if ttl = 0 then 900 else ttl)"

text \<open>Lines 28 to 32 and 42 to 46: the signature of a broadcast id and an expiry.\<close>

definition hlsSignature :: "runtime \<Rightarrow> env \<Rightarrow> uuid \<Rightarrow> rat \<Rightarrow> string" where
  "hlsSignature rt e broadcastId expNumber =
     hexDigest (hmacSha256 rt (orEmpty (HLS_SIGNING_SECRET e))
                  (broadcastId @ ''.'' @ numberText rt expNumber))"

text \<open>Line 33: the base path without a trailing slash.\<close>

definition pathPrefix :: "string \<Rightarrow> string" where
  "pathPrefix basePath =
     (if basePath \<noteq> [] \<and> last basePath = CHR ''/'' then butlast basePath else basePath)"

definition signHlsUrl :: "runtime \<Rightarrow> env \<Rightarrow> instant \<Rightarrow> uuid \<Rightarrow> string \<Rightarrow> string option" where
  "signHlsUrl rt e now broadcastId basePath =
     (if \<not> truthy (HLS_SIGNING_SECRET e) then None
      else (let expNumber = hlsExpiry e now;
                sig = hlsSignature rt e broadcastId expNumber
            in Some (pathPrefix basePath @ ''/broadcasts/'' @ broadcastId @ ''/hls/index.m3u8?exp=''
                       @ numberText rt expNumber @ ''&sig='' @ sig)))"

definition verifyHlsSignature ::
  "runtime \<Rightarrow> env \<Rightarrow> instant \<Rightarrow> uuid \<Rightarrow> string option \<Rightarrow> string option \<Rightarrow> bool" where
  "verifyHlsSignature rt e now broadcastId expText sigText =
     (if \<not> truthy (HLS_SIGNING_SECRET e) \<or> \<not> truthy expText \<or> \<not> truthy sigText then False
      else (case toNumber rt (orEmpty expText) of
              None \<Rightarrow> False
            | Some expNumber \<Rightarrow>
               (if expNumber < of_int (now div 1000) then False
                else (let expected = hlsSignature rt e broadcastId expNumber
                      in if length expected \<noteq> length (orEmpty sigText) then False
                         else expected = orEmpty sigText))))"

record hlsRequest =
  rq_id :: "string option"
  rq_file :: "string option"
  rq_exp :: "string option"
  rq_sig :: "string option"
  rq_authorization :: "string option"
  rq_cookieToken :: "string option"

text \<open>Lines 617 to 622: the bearer token of the header, or else the cookie.\<close>

definition requestToken :: "hlsRequest \<Rightarrow> string option" where
  "requestToken req =
     (let bearer = (case rq_authorization req of
                      None \<Rightarrow> None
                    | Some h \<Rightarrow> if take 7 h = ''Bearer '' then Some (drop 7 h) else None)
      in if truthy bearer then bearer else rq_cookieToken req)"

text \<open>Lines 624 to 644: token and subscription authorization; \<open>None\<close> when it passes.\<close>

definition subscriptionAuth :: "runtime \<Rightarrow> hlsRequest \<Rightarrow> uuid \<Rightarrow> sys \<Rightarrow> error option" where
  "subscriptionAuth rt req broadcastId s =
     (if \<not> truthy (requestToken req) then Some (ApiError 401 ''unauthorized'' ''Missing token'')
      else (case verifyAccessToken rt (orEmpty (requestToken req)) of
              Inl err \<Rightarrow> Some err
            | Inr tokenData \<Rightarrow>
               (let actor = (if truthy (tp_id tokenData) then tp_id tokenData else tp_sub tokenData)
                in if \<not> truthy actor then Some (ApiError 401 ''unauthorized'' ''Invalid token'')
                   else (case find (\<lambda>b. b_id b = broadcastId) (broadcasts s) of
                           None \<Rightarrow> Some (ApiError 404 ''not_found'' ''Broadcast not found'')
                         | Some broadcastRecord \<Rightarrow>
                            (case find (\<lambda>sub. Some (sub_userId sub) = actor
                                             \<and> sub_masjidId sub = b_masjidId broadcastRecord)
                                    (subscriptions s) of
                               None \<Rightarrow> Some (ApiError 403 ''forbidden'' ''Subscription required'')
                             | Some subscription \<Rightarrow> None)))))"

definition endsWith :: "string \<Rightarrow> string \<Rightarrow> bool" where
  "endsWith text suffix =
     (length suffix \<le> length text \<and> drop (length text - length suffix) text = suffix)"

text \<open>Lines 647 to 663: the file served and its content type, or 404.\<close>

definition serveAsset :: "runtime \<Rightarrow> uuid \<Rightarrow> string \<Rightarrow> error + string \<times> string option" where
  "serveAsset rt broadcastId file =
     (let safeFile = pathBasename rt file
      in if \<not> fileExists rt broadcastId safeFile
         then Inl (ApiError 404 ''not_found'' ''HLS asset not found'')
         else Inr (safeFile,
                   if endsWith safeFile ''.m3u8'' then Some ''application/vnd.apple.mpegurl''
                   else if endsWith safeFile ''.m4s'' then Some ''video/iso.segment''
                   else if endsWith safeFile ''.mp4'' then Some ''video/mp4''
                   else None))"

definition getHlsAsset ::
  "runtime \<Rightarrow> env \<Rightarrow> instant \<Rightarrow> hlsRequest \<Rightarrow> sys \<Rightarrow> error + string \<times> string option" where
  "getHlsAsset rt e now req s =
     (if \<not> truthy (rq_id req) \<or> \<not> truthy (rq_file req)
      then Inl (ApiError 400 ''validation_error'' ''Missing HLS asset params'')
      else (let authorized = verifyHlsSignature rt e now (orEmpty (rq_id req)) (rq_exp req) (rq_sig req)
            in if \<not> authorized
               then (case subscriptionAuth rt req (orEmpty (rq_id req)) s of
                       Some err \<Rightarrow> Inl err
                     | None \<Rightarrow> serveAsset rt (orEmpty (rq_id req)) (orEmpty (rq_file req)))
               else serveAsset rt (orEmpty (rq_id req)) (orEmpty (rq_file req))))"

section \<open>Sample configuration and records\<close>

definition env0 :: env where
  "env0 = \<lparr> BROADCAST_MAX_MINUTES = Some 15, HLS_ENABLED = False, HLS_PUBLIC_BASE_URL = None,
     HLS_SIGNING_SECRET = Some ''s3cret'', HLS_URL_TTL_SECONDS = Some 900, LIVEKIT_URL = None,
     LIVEKIT_API_KEY = None, LIVEKIT_API_SECRET = None, createRoom = (\<lambda>_. RoomCreated),
     killThrows = (\<lambda>_. False), stopEgressThrows = (\<lambda>_. False),
     mintToken = (\<lambda>_ _ _. ''jwt''), fcmReady = True, apnsReady = True,
     fcmSend = (\<lambda>_ _. Delivered), apnsSend = (\<lambda>_ _. Delivered) \<rparr>"

definition sb0 :: startBody where
  "sb0 = \<lparr> sb_streamProvider = None, sb_streamRoomId = None, sb_audioUrl = None \<rparr>"

definition eb0 :: endBody where
  "eb0 = \<lparr> eb_recordingUrl = None, eb_endedReason = None \<rparr>"

text \<open>A Fajr broadcast of masjid m1 with the given status and start instant.\<close>

definition bc0 :: "status \<Rightarrow> instant option \<Rightarrow> broadcast" where
  "bc0 st started = \<lparr> b_id = ''b1'', b_masjidId = ''m1'', b_createdBy = None, b_title = None,
     b_prayerName = Some Fajr, b_status = st, b_scheduledAt = None,
     b_streamProvider = Some ''livekit'', b_streamRoomId = None, b_audioUrl = None,
     b_hlsUrl = None, b_hlsEgressId = None, b_recordingUrl = None, b_startedAt = started,
     b_endedAt = None, b_endedReason = None, b_updatedAt = 0 \<rparr>"

text \<open>A store holding the given broadcasts, where user u1 administers masjid m1.\<close>

definition sys0 :: "broadcast list \<Rightarrow> sys" where
  "sys0 bs = \<lparr> broadcasts = bs,
     masjids = [\<lparr> m_id = ''m1'', m_timezone = ''Asia/Kolkata'', m_isApproved = True, m_isActive = True \<rparr>],
     masjidAdmins = [\<lparr> ma_masjidId = ''m1'', ma_userId = ''u1'' \<rparr>],
     subscriptions = [], userDevices = [], notificationLogs = [], notificationQueue = [],
     broadcastQueue = [], activeRelays = Map.empty, effects = [] \<rparr>"

definition autoEndJob0 :: job where
  "autoEndJob0 = (job0 ''broadcast-auto-end'')\<lparr> job_broadcastId := Some ''b1'',
     job_endedReason := Some ''max_duration_reached'' \<rparr>"

text \<open>
  Subscribers of masjid m1: u2 has muted the whole subscription, u3 has muted Fajr and owns
  an iPhone, u4 is muted until instant 900000.
\<close>

definition sub0 :: "uuid \<Rightarrow> bool \<Rightarrow> instant option \<Rightarrow> prayer list \<Rightarrow> subscription" where
  "sub0 u m until ps = \<lparr> sub_userId = u, sub_masjidId = ''m1'',
     sub_preferences = Some \<lparr> mutedPrayers = Some ps, wakeOnSilent = None \<rparr>,
     sub_isMuted = m, sub_muteUntil = until \<rparr>"

definition dev0 :: "uuid \<Rightarrow> uuid \<Rightarrow> platform \<Rightarrow> userDevice" where
  "dev0 i u pf = \<lparr> d_id = i, d_userId = u, d_fcmToken = Some (''fcm-'' @ i),
     d_voipToken = Some (''voip-'' @ i), d_platform = pf, d_isActive = True,
     d_isWakeOnSilentEnabled = True \<rparr>"

definition sys1 :: "broadcast list \<Rightarrow> sys" where
  "sys1 bs = (sys0 bs)\<lparr>
     subscriptions := [sub0 ''u2'' True None [], sub0 ''u3'' False None [Fajr],
                       sub0 ''u4'' False (Some 900000) []],
     userDevices := [dev0 ''d2'' ''u2'' Android, dev0 ''d3'' ''u3'' Ios, dev0 ''d4'' ''u4'' Web] \<rparr>"


text \<open>A relay of broadcast b1 with a running transcoder and an egress session.\<close>

definition sysR :: sys where
  "sysR = (sys0 [bc0 Live (Some 0)])\<lparr> activeRelays :=
     [''b1'' \<mapsto> \<lparr> relay_roomName = ''broadcast-b1'', relay_egressId = Some ''EG_1'',
                  relay_rtmpUrl = ''rtmp://relay/b1'', relay_pid = Some 4242 \<rparr>] \<rparr>"

text \<open>
  A date library for one day in Asia/Kolkata that knows the two target dates and the
  adhan time 05:10, and a Fajr template of masjid m1.
\<close>

definition lux0 :: luxon where
  "lux0 = \<lparr> localDate = (\<lambda>zone offset. if zone = ''Asia/Kolkata''
                 then Some (if offset = 0 then ''2026-03-01'' else ''2026-03-02'') else None),
             fromISO = (\<lambda>text zone.
                 if zone = ''Asia/Kolkata'' \<and> text = ''2026-03-01T05:10:00'' then Some 1772322000000
                 else if zone = ''Asia/Kolkata'' \<and> text = ''2026-03-02T05:10:00'' then Some 1772408400000
                 else None) \<rparr>"

definition tpl0 :: scheduleTemplate where
  "tpl0 = \<lparr> t_masjidId = ''m1'', t_prayerName = Fajr, t_adhanTimeLocal = ''05:10:00'',
     t_iqamahTimeLocal = None, t_khutbahTimeLocal = None, t_isJuma = Some False \<rparr>"

definition sched0 :: "string \<Rightarrow> instant \<Rightarrow> schedule" where
  "sched0 dt adhan = \<lparr> s_masjidId = ''m1'', s_date = dt, s_prayerName = Fajr,
     s_time = ''05:10:00'', s_adhanAtUtc = adhan, s_iqamahAtUtc = None, s_khutbahAtUtc = None,
     s_isJuma = False \<rparr>"






text \<open>
  A runtime that knows the number 1772369100 and its text, with a polynomial checksum of
  the secret's length and the text in the place of the digest, access tokens of the users
  u3 and u9, and the playlist of broadcast b1 on disk.
\<close>

definition rt0 :: runtime where
  "rt0 = \<lparr> hmacSha256 = (\<lambda>secret text.
                foldl (\<lambda>h c. h * 257 + of_nat (of_char c)) (of_nat (length secret)) text),
            toNumber = (\<lambda>text. if text = ''1772369100'' then Some 1772369100 else None),
            numberText = (\<lambda>n. if n = 1772369100 then ''1772369100'' else ''NaN''),
            verifyAccessToken = (\<lambda>token.
                if token = ''tok-u3'' then Inr \<lparr> tp_id = Some ''u3'', tp_sub = None \<rparr>
                else if token = ''tok-u9'' then Inr \<lparr> tp_id = None, tp_sub = Some ''u9'' \<rparr>
                else Inl (ApiError 401 ''unauthorized'' ''jwt malformed'')),
            pathBasename = (\<lambda>file. file),
            fileExists = (\<lambda>broadcastId file. broadcastId = ''b1'' \<and> file = ''index.m3u8'') \<rparr>"

definition rq0 :: "string option \<Rightarrow> string option \<Rightarrow> hlsRequest" where
  "rq0 expText sigText = \<lparr> rq_id = Some ''b1'', rq_file = Some ''index.m3u8'', rq_exp = expText,
     rq_sig = sigText, rq_authorization = None, rq_cookieToken = None \<rparr>"

text \<open>The same request without a signature, with an Authorization header and a cookie.\<close>

definition rqAuth :: "string option \<Rightarrow> string option \<Rightarrow> hlsRequest" where
  "rqAuth header cookie = (rq0 None None)\<lparr> rq_authorization := header, rq_cookieToken := cookie \<rparr>"

section \<open>Proofs: broadcast lifecycle\<close>

lemma find_by_id:
  "distinct (map b_id bs) \<Longrightarrow> b \<in> set bs \<Longrightarrow> find (\<lambda>x. b_id x = b_id b) bs = Some b"
  by (induction bs) (auto simp: rev_image_eqI)

lemma find_id_eq: "find (\<lambda>x. b_id x = bid) bs = Some b0 \<Longrightarrow> b_id b0 = bid \<and> b0 \<in> set bs"
  by (induction bs) (auto split: if_splits)

lemma update_keeps: "b \<in> set bs \<Longrightarrow> Some (b_id b) \<noteq> bid \<Longrightarrow> b \<in> set (updateBroadcast bid f bs)"
  by (auto simp: updateBroadcast_def)

lemma broadcasts_addEffects [simp]: "broadcasts (addEffects xs s) = broadcasts s"
  by (simp add: addEffects_def)

lemma broadcasts_deleteLivekitRoom [simp]: "broadcasts (deleteLivekitRoom e r s) = broadcasts s"
  by (simp add: deleteLivekitRoom_def split: option.splits)

lemma broadcasts_stopLivekitEgress [simp]: "broadcasts (stopLivekitEgress e g s) = broadcasts s"
  by (simp add: stopLivekitEgress_def)

lemma broadcasts_stopHlsRelay [simp]: "broadcasts (snd (stopHlsRelay e bid s)) = broadcasts s"
  by (simp add: stopHlsRelay_def Let_def split: option.splits)

lemma broadcasts_ensureLivekitRoom: "ensureLivekitRoom e n s = (r, s1) \<Longrightarrow> broadcasts s1 = broadcasts s"
  by (auto simp: ensureLivekitRoom_def split: roomOutcome.splits if_splits)

lemma broadcasts_markBroadcastExpired:
  "broadcasts (markBroadcastExpired now bid s) =
     updateBroadcast bid (markCompleted now (Some ''max_duration_reached'')) (broadcasts s)"
  by (simp add: markBroadcastExpired_def Let_def split: list.splits)

lemma broadcasts_goLiveCommit:
  "broadcasts (snd (goLiveCommit e now bid provider roomId audio s)) =
     updateBroadcast (Some bid) (liveUpdate now provider roomId audio) (broadcasts s)"
  by (simp add: goLiveCommit_def Let_def split: list.splits option.splits)

lemma goLive_keeps:
  "b \<in> set (broadcasts s) \<Longrightarrow> b_id b \<noteq> bid \<Longrightarrow> b \<in> set (broadcasts (snd (goLive e now bid body rec s)))"
  by (auto simp: goLive_def Let_def broadcasts_goLiveCommit update_keeps
      split: prod.splits option.splits dest: broadcasts_ensureLivekitRoom)

lemma finish_keeps:
  "b \<in> set (broadcasts s) \<Longrightarrow> b_id b \<noteq> bid \<Longrightarrow> b \<in> set (broadcasts (snd (finish e now bid body s)))"
  by (simp add: finish_def Let_def update_keeps split: list.splits)

lemma completeBroadcast_keeps:
  "b \<in> set (broadcasts s) \<Longrightarrow> b_id b \<noteq> bid \<Longrightarrow> b \<in> set (broadcasts (completeBroadcast e now bid reason rec s))"
  by (simp add: completeBroadcast_def Let_def update_keeps split: list.splits)

lemma selected_row:
  assumes "selectBroadcast cols bid bs = Some rec"
  shows "\<exists>b0. find (\<lambda>x. b_id x = bid) bs = Some b0 \<and> rec = selectRow cols b0 \<and> b_id b0 = bid \<and> b0 \<in> set bs"
proof -
  from assms obtain b0 where f: "find (\<lambda>x. b_id x = bid) bs = Some b0" and r: "rec = selectRow cols b0"
    by (auto simp: selectBroadcast_def)
  from find_id_eq[OF f] f r show ?thesis by blast
qed

text \<open>With unique ids, the row found for another status is another row.\<close>

lemma other_row:
  assumes "distinct (map b_id bs)" "b \<in> set bs" "find (\<lambda>x. b_id x = bid) bs = Some b0"
    "b_status b0 \<noteq> b_status b"
  shows "b_id b \<noteq> bid"
proof
  assume "b_id b = bid"
  with assms(1,2) have "find (\<lambda>x. b_id x = bid) bs = Some b" using find_by_id by blast
  with assms(3,4) show False by simp
qed

lemma sweepItem_keeps:
  "b \<in> set (broadcasts s) \<Longrightarrow> b_id b \<noteq> b_id item \<Longrightarrow> b \<in> set (broadcasts (sweepItem e now item s))"
  by (simp add: sweepItem_def Let_def update_keeps)

lemma sweep_fold_keeps:
  "b \<in> set (broadcasts s) \<Longrightarrow> b_id b \<notin> b_id ` set items \<Longrightarrow>
     b \<in> set (broadcasts (fold (sweepItem e now) items s))"
  by (induction items arbitrary: s) (auto simp: sweepItem_keeps)

lemma start_keeps:
  assumes "distinct (map b_id (broadcasts s))" "b \<in> set (broadcasts s)" "b_status b = Completed"
  shows "b \<in> set (broadcasts (snd (startBroadcast e now actor pid body s)))"
proof -
  { fix bid rec
    assume sel: "selectBroadcast startBroadcast_columns bid (broadcasts s) = Some rec"
    then obtain b0 where f: "find (\<lambda>x. b_id x = bid) (broadcasts s) = Some b0"
      and r: "rec = selectRow startBroadcast_columns b0" and i: "b_id b0 = bid"
      using selected_row by blast
    have st: "r_status rec = Some (b_status b0)" and rid: "r_id rec = Some bid"
      using r i by (simp_all add: selectRow_def pick_def startBroadcast_columns_def)
    have ne: "r_status rec \<noteq> Some Completed \<Longrightarrow> b_id b \<noteq> bid"
      using other_row[OF assms(1,2) f] st assms(3) by auto
    have "r_status rec = Some Live \<Longrightarrow> b \<in> set (broadcasts (markBroadcastExpired now (r_id rec) s))"
      using ne assms(2) by (simp add: broadcasts_markBroadcastExpired rid update_keeps)
    moreover have "r_status rec \<noteq> Some Completed \<Longrightarrow> b \<in> set (broadcasts (snd (goLive e now bid body rec s)))"
      using ne assms(2) by (simp add: goLive_keeps)
    ultimately have "r_status rec = Some Live \<longrightarrow> b \<in> set (broadcasts (markBroadcastExpired now (r_id rec) s))"
      and "r_status rec \<noteq> Some Completed \<longrightarrow> b \<in> set (broadcasts (snd (goLive e now bid body rec s)))"
      by auto }
  note inner = this
  show ?thesis
    using assms(2) inner
    by (auto simp: startBroadcast_def split: option.splits)
qed

lemma end_keeps:
  assumes "distinct (map b_id (broadcasts s))" "b \<in> set (broadcasts s)" "b_status b = Completed"
  shows "b \<in> set (broadcasts (snd (endBroadcast e now actor pid body s)))"
proof -
  { fix bid rec
    assume sel: "selectBroadcast endBroadcast_columns bid (broadcasts s) = Some rec"
    then obtain b0 where f: "find (\<lambda>x. b_id x = bid) (broadcasts s) = Some b0"
      and r: "rec = selectRow endBroadcast_columns b0" and i: "b_id b0 = bid"
      using selected_row by blast
    have st: "r_status rec = Some (b_status b0)"
      using r i by (simp_all add: selectRow_def pick_def endBroadcast_columns_def)
    have ne: "r_status rec \<noteq> Some Completed \<Longrightarrow> b_id b \<noteq> bid"
      using other_row[OF assms(1,2) f] st assms(3) by auto
    have "r_status rec \<noteq> Some Completed \<longrightarrow> b \<in> set (broadcasts (snd (finish e now bid body s)))"
      using ne assms(2) by (simp add: finish_keeps) }
  note inner = this
  show ?thesis
    using assms(2) inner
    by (auto simp: endBroadcast_def split: option.splits)
qed

lemma autoEnd_keeps:
  assumes "distinct (map b_id (broadcasts s))" "b \<in> set (broadcasts s)" "b_status b \<noteq> Live"
  shows "b \<in> set (broadcasts (autoEndHandler e now j s))"
proof -
  { fix bid rec
    assume sel: "selectBroadcast autoEnd_columns bid (broadcasts s) = Some rec"
    then obtain b0 where f: "find (\<lambda>x. b_id x = bid) (broadcasts s) = Some b0"
      and r: "rec = selectRow autoEnd_columns b0" and i: "b_id b0 = bid"
      using selected_row by blast
    have st: "r_status rec = Some (b_status b0)"
      using r i by (simp_all add: selectRow_def pick_def autoEnd_columns_def)
    have ne: "r_status rec = Some Live \<Longrightarrow> b_id b \<noteq> bid"
      using other_row[OF assms(1,2) f] st assms(3) by auto
    have "r_status rec = Some Live \<longrightarrow> b \<in> set (broadcasts (completeBroadcast e now bid (job_endedReason j) rec s))"
      using ne assms(2) by (simp add: completeBroadcast_keeps) }
  note inner = this
  show ?thesis
    using assms(2) inner
    by (auto simp: autoEndHandler_def Let_def split: option.splits)
qed

lemma sweep_keeps:
  assumes "distinct (map b_id (broadcasts s))" "b \<in> set (broadcasts s)" "b_status b \<noteq> Live"
  shows "b \<in> set (broadcasts (snd (cleanupExpiredBroadcastsIn scope e now s)))"
proof -
  have "b_id b \<notin> b_id ` set (filter (\<lambda>x. b_status x = Live \<and> P x) (broadcasts s))" for P
  proof
    assume "b_id b \<in> b_id ` set (filter (\<lambda>x. b_status x = Live \<and> P x) (broadcasts s))"
    then obtain x where x: "x \<in> set (broadcasts s)" "b_status x = Live" "b_id x = b_id b" by auto
    from assms(1) have "inj_on b_id (set (broadcasts s))" by (simp add: distinct_map)
    with x assms(2) have "x = b" by (auto dest: inj_onD)
    with x assms(3) show False by simp
  qed
  then show ?thesis
    using assms(2)
    by (simp add: cleanupExpiredBroadcastsIn_def Let_def sweep_fold_keeps split: option.splits)
qed

lemma select_by_id:
  "distinct (map b_id bs) \<Longrightarrow> b \<in> set bs \<Longrightarrow>
     selectBroadcast cols (b_id b) bs = Some (selectRow cols b)"
  by (simp add: selectBroadcast_def find_by_id)

lemma start_completed_conflict:
  assumes "distinct (map b_id (broadcasts s))" "b \<in> set (broadcasts s)" "b_status b = Completed"
    "truthy actor" "b_id b \<noteq> []"
  shows "startBroadcast e now actor (Some (b_id b)) body s =
    (Inl (ApiError 409 ''conflict'' ''Broadcast already ended''), s)"
proof -
  obtain a where a: "actor = Some a" "a \<noteq> []"
    using assms(4) by (auto simp: truthy_def split: option.splits)
  have st: "r_status (selectRow startBroadcast_columns b) = Some Completed"
    using assms(3) by (simp add: selectRow_def pick_def startBroadcast_columns_def)
  show ?thesis
    by (simp add: startBroadcast_def a assms(5) select_by_id[OF assms(1,2)] st)
qed

lemma end_completed_conflict:
  assumes "distinct (map b_id (broadcasts s))" "b \<in> set (broadcasts s)" "b_status b = Completed"
    "truthy actor" "b_id b \<noteq> []"
  shows "endBroadcast e now actor (Some (b_id b)) body s =
    (Inl (ApiError 409 ''conflict'' ''Broadcast already ended''), s)"
proof -
  obtain a where a: "actor = Some a" "a \<noteq> []"
    using assms(4) by (auto simp: truthy_def split: option.splits)
  have st: "r_status (selectRow endBroadcast_columns b) = Some Completed"
    using assms(3) by (simp add: selectRow_def pick_def endBroadcast_columns_def)
  show ?thesis
    by (simp add: endBroadcast_def a assms(5) select_by_id[OF assms(1,2)] st)
qed

text \<open>The three slips, for every input.\<close>

lemma autoEnd_row_has_no_start:
  "selectBroadcast autoEnd_columns bid bs = Some rec \<Longrightarrow> r_startedAt rec = None"
  by (auto simp: selectBroadcast_def selectRow_def pick_def autoEnd_columns_def)

lemma broadcastQueue_completeBroadcast:
  "broadcastQueue (completeBroadcast e now bid reason rec s) = broadcastQueue s"
  by (simp add: completeBroadcast_def Let_def deleteLivekitRoom_def addEffects_def stopHlsRelay_def
      stopLivekitEgress_def split: list.splits option.splits)

lemma auto_end_never_reschedules:
  "broadcastQueue (autoEndHandler e now j s) = broadcastQueue s"
proof -
  have "broadcastQueue (case r_startedAt rec of
            None \<Rightarrow> completeBroadcast e now bid reason rec s
          | Some t \<Rightarrow> f t) = broadcastQueue s"
    if "selectBroadcast autoEnd_columns bid (broadcasts s) = Some rec" for rec bid reason f
    using autoEnd_row_has_no_start[OF that] by (simp add: broadcastQueue_completeBroadcast)
  then show ?thesis
    by (simp add: autoEndHandler_def Let_def split: option.splits)
qed

lemma sweep_always_throws:
  "cleanupExpiredBroadcasts e now s = (Some (ReferenceError ''lt is not defined''), s)"
  by (simp add: cleanupExpiredBroadcasts_def cleanupExpiredBroadcastsIn_def worker_imports_def
      unbound_def Let_def)

lemma start_row_has_no_start:
  "selectBroadcast startBroadcast_columns bid bs = Some rec \<Longrightarrow> r_startedAt rec = None"
  by (auto simp: selectBroadcast_def selectRow_def pick_def startBroadcast_columns_def)

lemma start_never_heals:
  assumes "find (\<lambda>b. b_id b = bid) (broadcasts s) = Some b" and "b_status b = Live"
    and "actor = Some a" and "a \<noteq> []" and "bid \<noteq> []"
  shows "startBroadcast e now actor (Some bid) body s =
    (Inl (ApiError 409 ''conflict'' ''Broadcast already live''), s)"
proof -
  have sel: "selectBroadcast startBroadcast_columns bid (broadcasts s) = Some (selectRow startBroadcast_columns b)"
    using assms(1) by (simp add: selectBroadcast_def)
  have st: "r_status (selectRow startBroadcast_columns b) = Some Live"
    using assms(2) by (simp add: selectRow_def pick_def startBroadcast_columns_def)
  have ns: "r_startedAt (selectRow startBroadcast_columns b) = None"
    by (rule start_row_has_no_start[OF sel])
  show ?thesis
    by (simp add: startBroadcast_def assms(3-5) sel st ns isBroadcastExpired_def)
qed

text \<open>
  C1 (as amended). With unique broadcast ids, a record whose status is completed is left
  exactly as it is by startBroadcast, endBroadcast, the auto-end job and the sweep, and
  startBroadcast and endBroadcast called on it by an authenticated user fail with
  409 Conflict and change nothing. A record whose status is failed is left as it is by
  the auto-end job and the sweep.
\<close>

theorem terminal_state_invariant:
  assumes "distinct (map b_id (broadcasts s))" and "b \<in> set (broadcasts s)"
    and "b_status b = Completed \<or> b_status b = Failed"
  shows "b \<in> set (broadcasts (autoEndHandler e now j s))
       \<and> b \<in> set (broadcasts (snd (cleanupExpiredBroadcastsIn scope e now s)))
       \<and> (b_status b = Completed \<longrightarrow>
            b \<in> set (broadcasts (snd (startBroadcast e now actor pid sbody s)))
          \<and> b \<in> set (broadcasts (snd (endBroadcast e now actor pid ebody s)))
          \<and> (truthy actor \<and> b_id b \<noteq> [] \<longrightarrow>
               startBroadcast e now actor (Some (b_id b)) sbody s =
                 (Inl (ApiError 409 ''conflict'' ''Broadcast already ended''), s)
             \<and> endBroadcast e now actor (Some (b_id b)) ebody s =
                 (Inl (ApiError 409 ''conflict'' ''Broadcast already ended''), s)))"
proof -
  have nl: "b_status b \<noteq> Live" using assms(3) by auto
  have 1: "b \<in> set (broadcasts (autoEndHandler e now j s))"
    by (rule autoEnd_keeps[OF assms(1,2) nl])
  have 2: "b \<in> set (broadcasts (snd (cleanupExpiredBroadcastsIn scope e now s)))"
    by (rule sweep_keeps[OF assms(1,2) nl])
  show ?thesis
    using 1 2 start_keeps[OF assms(1,2)] end_keeps[OF assms(1,2)]
      start_completed_conflict[OF assms(1,2)] end_completed_conflict[OF assms(1,2)]
    by blast
qed

theorem terminal_state_invariant_witness:
  "bc0 Completed None \<in> set (broadcasts (autoEndHandler env0 5000 autoEndJob0 (sys0 [bc0 Completed None])))
   \<and> bc0 Completed None \<in> set (broadcasts (snd (cleanupExpiredBroadcastsIn [''and'', ''eq'', ''lt''] env0 5000 (sys0 [bc0 Completed None]))))
   \<and> startBroadcast env0 5000 (Some ''u1'') (Some ''b1'') sb0 (sys0 [bc0 Completed None]) =
        (Inl (ApiError 409 ''conflict'' ''Broadcast already ended''), sys0 [bc0 Completed None])
   \<and> endBroadcast env0 5000 (Some ''u1'') (Some ''b1'') eb0 (sys0 [bc0 Completed None]) =
        (Inl (ApiError 409 ''conflict'' ''Broadcast already ended''), sys0 [bc0 Completed None])"
  using terminal_state_invariant[where s = "sys0 [bc0 Completed None]" and b = "bc0 Completed None"
      and e = env0 and now = 5000 and j = autoEndJob0 and scope = "[''and'', ''eq'', ''lt'']"
      and actor = "Some ''u1''" and pid = "Some ''b1''" and sbody = sb0 and ebody = eb0]
  by (simp add: sys0_def bc0_def truthy_def)

text \<open>
  C1 as stated fails for the status failed: neither handler has a guard for it, so an
  administrator's startBroadcast moves a failed broadcast to live and endBroadcast moves
  it to completed.
\<close>

theorem failed_broadcast_restarts:
  "map b_status (broadcasts (sys0 [bc0 Failed None])) = [Failed]
   \<and> \<not> isl (fst (startBroadcast env0 5000 (Some ''u1'') (Some ''b1'') sb0 (sys0 [bc0 Failed None])))
   \<and> map b_status (broadcasts (snd (startBroadcast env0 5000 (Some ''u1'') (Some ''b1'') sb0 (sys0 [bc0 Failed None])))) = [Live]
   \<and> \<not> isl (fst (endBroadcast env0 5000 (Some ''u1'') (Some ''b1'') eb0 (sys0 [bc0 Failed None])))
   \<and> map b_status (broadcasts (snd (endBroadcast env0 5000 (Some ''u1'') (Some ''b1'') eb0 (sys0 [bc0 Failed None])))) = [Completed]"
  by (simp add: startBroadcast_def endBroadcast_def sys0_def bc0_def env0_def sb0_def eb0_def
      selectBroadcast_def selectRow_def pick_def startBroadcast_columns_def endBroadcast_columns_def
      requireMasjidAuthority_def goLive_def goLiveCommit_def finish_def nullish_def truthy_def
      getLivekitUrl_def returning_def updateBroadcast_def liveUpdate_def isHlsEnabled_def Let_def)

text \<open>
  C2. The handler's select lists the columns id, status and streamRoomId, so the
  \<^verbatim>\<open>startedAt\<close> it reads next is undefined and the premature-firing branch is never
  taken: fired one minute after the start, with a ceiling of fifteen minutes, the job
  completes the broadcast and enqueues no new auto-end job.
\<close>

theorem auto_end_fires_early:
  "of_int (60000 - 0) < workerMaxMinutes env0 * 60 * 1000 - 1000
   \<and> map b_status (broadcasts (autoEndHandler env0 60000 autoEndJob0 (sys0 [bc0 Live (Some 0)]))) = [Completed]
   \<and> broadcastQueue (autoEndHandler env0 60000 autoEndJob0 (sys0 [bc0 Live (Some 0)])) = []"
  by (simp add: autoEndHandler_def autoEndJob0_def job0_def sys0_def bc0_def env0_def
      selectBroadcast_def selectRow_def pick_def autoEnd_columns_def workerMaxMinutes_def
      completeBroadcast_def returning_def updateBroadcast_def markCompleted_def stopHlsRelay_def
      deleteLivekitRoom_def hasLivekitConfig_def truthy_def Let_def)

text \<open>
  C3. The sweep builds its query with \<^verbatim>\<open>lt\<close>, which worker.js does not import: each
  run throws a ReferenceError before it reads the table, and a live broadcast started an
  hour ago stays live.
\<close>

theorem sweep_throws:
  "cleanupExpiredBroadcasts env0 3600000 (sys0 [bc0 Live (Some 0)]) =
     (Some (ReferenceError ''lt is not defined''), sys0 [bc0 Live (Some 0)])"
  by (simp add: cleanupExpiredBroadcasts_def cleanupExpiredBroadcastsIn_def worker_imports_def
      unbound_def Let_def)

text \<open>
  C4. The select of startBroadcast does not list \<^verbatim>\<open>startedAt\<close>, so the expiry test
  sees an undefined start: on a live broadcast that started an hour ago (expired by
  isBroadcastExpired on the stored record) the handler answers 409 "Broadcast already
  live" and leaves the stale record live, with no end notification.
\<close>

theorem start_on_stale_live:
  "isBroadcastExpired env0 3600000 (b_startedAt (bc0 Live (Some 0)))
   \<and> startBroadcast env0 3600000 (Some ''u1'') (Some ''b1'') sb0 (sys0 [bc0 Live (Some 0)]) =
       (Inl (ApiError 409 ''conflict'' ''Broadcast already live''), sys0 [bc0 Live (Some 0)])"
  by (simp add: startBroadcast_def sys0_def bc0_def env0_def sb0_def isBroadcastExpired_def
      getBroadcastMaxMinutes_def selectBroadcast_def selectRow_def pick_def startBroadcast_columns_def)

section \<open>Proofs: notification fan-out\<close>

lemma notifyLoop_logs_acc:
  "l \<in> set (snd (notifyLoop f rs (cs, ls))) \<longleftrightarrow>
     l \<in> set ls \<or> (\<exists>r \<in> set rs. \<exists>c. f r = Some (c, l))"
  by (induction rs arbitrary: cs ls) (auto split: option.splits)

lemma notifyLoop_calls_acc:
  "c \<in> set (fst (notifyLoop f rs (cs, ls))) \<longleftrightarrow>
     c \<in> set cs \<or> (\<exists>r \<in> set rs. \<exists>l. f r = Some (c, l))"
  by (induction rs arbitrary: cs ls) (auto split: option.splits)

lemma notifyLoop_logs:
  "l \<in> set (snd (notifyLoop f rs ([], []))) \<longleftrightarrow> (\<exists>r \<in> set rs. \<exists>c. f r = Some (c, l))"
  by (simp add: notifyLoop_logs_acc)

lemma notifyLoop_calls:
  "c \<in> set (fst (notifyLoop f rs ([], []))) \<longleftrightarrow> (\<exists>r \<in> set rs. \<exists>l. f r = Some (c, l))"
  by (simp add: notifyLoop_calls_acc)

lemma recipients_iff:
  "r \<in> set (recipients mid s) \<longleftrightarrow>
     (\<exists>sub \<in> set (subscriptions s). \<exists>d \<in> set (userDevices s).
        sub_masjidId sub = mid \<and> d_userId d = sub_userId sub \<and> d_isActive d \<and> r = joinRow sub d)"
  by (auto simp: recipients_def)

lemma deliver_SomeD:
  assumes "deliver e now ev bid mid pn rec r = Some (c, l)"
  shows "\<not> rc_isMuted r" and "\<forall>t. rc_muteUntil r = Some t \<longrightarrow> t \<le> now"
    and "\<forall>p. pn = Some p \<longrightarrow> p \<notin> set (mutedPrayersOf (rc_preferences r))"
    and "nl_userId l = rc_userId r" and "nl_deviceId l = rc_deviceId r"
    and "nl_broadcastId l = bid" and "pushTarget c = Some (rc_userId r, rc_deviceId r)"
  using assms
  by (auto simp: deliver_def Let_def pushTarget_def split: if_splits option.splits)


text \<open>What a run of the worker reads: the job's ids and the broadcast row.\<close>

lemma fanOut_logD:
  assumes "l \<in> set (snd (fanOut e now j s))"
  shows "\<exists>bid mid rec r c. job_masjidId j = Some mid \<and> r \<in> set (recipients mid s) \<and>
           deliver e now (eventTypeOf (job_name j)) bid mid (job_prayerName j) rec r = Some (c, l)"
  using assms
  by (auto simp: fanOut_def notifyLoop_logs split: option.splits if_splits)

lemma fanOut_callD:
  assumes "c \<in> set (fst (fanOut e now j s))"
  shows "\<exists>bid mid rec r l. job_masjidId j = Some mid \<and> r \<in> set (recipients mid s) \<and>
           deliver e now (eventTypeOf (job_name j)) bid mid (job_prayerName j) rec r = Some (c, l)"
  using assms
  by (auto simp: fanOut_def notifyLoop_calls split: option.splits if_splits)

text \<open>The unique indexes of the two tables make a recipient row the only one of its user and device.\<close>

lemma recipient_unique:
  assumes dd: "distinct (map d_id (userDevices s))"
    and ds: "distinct (map (\<lambda>x. (sub_userId x, sub_masjidId x)) (subscriptions s))"
    and sub: "sub \<in> set (subscriptions s)" and d: "d \<in> set (userDevices s)"
    and r: "r \<in> set (recipients (sub_masjidId sub) s)"
    and eq: "rc_userId r = sub_userId sub" "rc_deviceId r = d_id d"
  shows "r = joinRow sub d"
proof -
  from r obtain sub' d' where s': "sub' \<in> set (subscriptions s)" and d': "d' \<in> set (userDevices s)"
    and m: "sub_masjidId sub' = sub_masjidId sub" and rr: "r = joinRow sub' d'"
    by (auto simp: recipients_iff)
  from eq rr have u: "sub_userId sub' = sub_userId sub" and i: "d_id d' = d_id d"
    by (simp_all add: joinRow_def)
  from dd have "inj_on d_id (set (userDevices s))" by (simp add: distinct_map)
  with d d' i have "d' = d" by (auto dest: inj_onD)
  moreover from ds have "inj_on (\<lambda>x. (sub_userId x, sub_masjidId x)) (set (subscriptions s))"
    by (simp add: distinct_map)
  with sub s' u m have "sub' = sub" by (auto dest: inj_onD)
  ultimately show ?thesis using rr by simp
qed

lemma muted_row_skipped:
  assumes dd: "distinct (map d_id (userDevices s))"
    and ds: "distinct (map (\<lambda>x. (sub_userId x, sub_masjidId x)) (subscriptions s))"
    and sub: "sub \<in> set (subscriptions s)" and d: "d \<in> set (userDevices s)"
    and skip: "\<And>ev bid rec. deliver e now ev bid (sub_masjidId sub) (job_prayerName j) rec (joinRow sub d) = None"
    and m: "job_masjidId j = Some (sub_masjidId sub)"
  shows "(sub_userId sub, d_id d) \<notin> logKey ` set (snd (fanOut e now j s))"
    and "Some (sub_userId sub, d_id d) \<notin> pushTarget ` set (fst (fanOut e now j s))"
proof -
  show "(sub_userId sub, d_id d) \<notin> logKey ` set (snd (fanOut e now j s))"
  proof
    assume "(sub_userId sub, d_id d) \<in> logKey ` set (snd (fanOut e now j s))"
    then obtain l where l: "l \<in> set (snd (fanOut e now j s))"
      and k: "nl_userId l = sub_userId sub" "nl_deviceId l = d_id d"
      by (auto simp: logKey_def)
    from fanOut_logD[OF l] m obtain bid rec r c
      where r: "r \<in> set (recipients (sub_masjidId sub) s)"
        and dl: "deliver e now (eventTypeOf (job_name j)) bid (sub_masjidId sub) (job_prayerName j) rec r = Some (c, l)"
      by auto
    from deliver_SomeD(4,5)[OF dl] k have "rc_userId r = sub_userId sub" "rc_deviceId r = d_id d"
      by simp_all
    from recipient_unique[OF dd ds sub d r this] have "r = joinRow sub d" .
    with dl skip show False by simp
  qed
  show "Some (sub_userId sub, d_id d) \<notin> pushTarget ` set (fst (fanOut e now j s))"
  proof
    assume "Some (sub_userId sub, d_id d) \<in> pushTarget ` set (fst (fanOut e now j s))"
    then obtain c where c: "c \<in> set (fst (fanOut e now j s))"
      and k: "pushTarget c = Some (sub_userId sub, d_id d)"
      by force
    from fanOut_callD[OF c] m obtain bid rec r l
      where r: "r \<in> set (recipients (sub_masjidId sub) s)"
        and dl: "deliver e now (eventTypeOf (job_name j)) bid (sub_masjidId sub) (job_prayerName j) rec r = Some (c, l)"
      by auto
    from deliver_SomeD(7)[OF dl] k have "rc_userId r = sub_userId sub" "rc_deviceId r = d_id d"
      by simp_all
    from recipient_unique[OF dd ds sub d r this] have "r = joinRow sub d" .
    with dl skip show False by simp
  qed
qed

lemma worker_appends:
  "notificationLogs (notificationsWorker e now j s) = notificationLogs s @ snd (fanOut e now j s)"
  "effects (notificationsWorker e now j s) = effects s @ fst (fanOut e now j s)"
  by (simp_all add: notificationsWorker_def split: prod.splits)

text \<open>
  C6. In a fan-out run for a job of the subscription's masjid (start or end), a
  subscription that is muted, or muted until an instant after the run, gets no push call
  and no log row for any device: no call is tagged with its user and that device, no
  collected log row carries them, and the worker adds exactly the collected calls and
  rows to the store. The unique indexes on (userId, masjidId) and on the device id are
  assumed.
\<close>

theorem muted_subscription_gets_nothing:
  assumes "distinct (map d_id (userDevices s))"
    and "distinct (map (\<lambda>x. (sub_userId x, sub_masjidId x)) (subscriptions s))"
    and "sub \<in> set (subscriptions s)" and "d \<in> set (userDevices s)"
    and "job_masjidId j = Some (sub_masjidId sub)"
    and "sub_isMuted sub \<or> (\<exists>t. sub_muteUntil sub = Some t \<and> now < t)"
  shows "Some (sub_userId sub, d_id d) \<notin> pushTarget ` set (fst (fanOut e now j s))
       \<and> (sub_userId sub, d_id d) \<notin> logKey ` set (snd (fanOut e now j s))
       \<and> effects (notificationsWorker e now j s) = effects s @ fst (fanOut e now j s)
       \<and> notificationLogs (notificationsWorker e now j s) = notificationLogs s @ snd (fanOut e now j s)"
proof -
  have skip: "deliver e now ev bid (sub_masjidId sub) (job_prayerName j) rec (joinRow sub d) = None"
    for ev bid rec
    using assms(6) by (auto simp: deliver_def joinRow_def)
  show ?thesis
    using muted_row_skipped[OF assms(1-4) skip assms(5)] worker_appends by simp
qed

theorem muted_subscription_gets_nothing_witness:
  "map logKey (snd (fanOut env0 5000 (endJob (bc0 Completed (Some 0))) (sys1 [bc0 Completed (Some 0)])))
     = [(''u3'', ''d3'')]
   \<and> (''u2'', ''d2'') \<notin> logKey ` set (snd (fanOut env0 5000 (endJob (bc0 Completed (Some 0))) (sys1 [bc0 Completed (Some 0)])))
   \<and> Some (''u2'', ''d2'') \<notin> pushTarget ` set (fst (fanOut env0 5000 (endJob (bc0 Completed (Some 0))) (sys1 [bc0 Completed (Some 0)])))
   \<and> (''u4'', ''d4'') \<notin> logKey ` set (snd (fanOut env0 5000 (endJob (bc0 Completed (Some 0))) (sys1 [bc0 Completed (Some 0)])))"
proof -
  let ?s = "sys1 [bc0 Completed (Some 0)]" and ?j = "endJob (bc0 Completed (Some 0))"
  have u2: "Some (sub_userId (sub0 ''u2'' True None []), d_id (dev0 ''d2'' ''u2'' Android))
        \<notin> pushTarget ` set (fst (fanOut env0 5000 ?j ?s))
     \<and> (sub_userId (sub0 ''u2'' True None []), d_id (dev0 ''d2'' ''u2'' Android))
        \<notin> logKey ` set (snd (fanOut env0 5000 ?j ?s))"
    using muted_subscription_gets_nothing[where s = ?s and sub = "sub0 ''u2'' True None []"
        and d = "dev0 ''d2'' ''u2'' Android" and j = ?j and now = 5000 and e = env0]
    by (simp add: sys1_def sys0_def sub0_def dev0_def endJob_def bc0_def job0_def)
  have u4: "(sub_userId (sub0 ''u4'' False (Some 900000) []), d_id (dev0 ''d4'' ''u4'' Web))
        \<notin> logKey ` set (snd (fanOut env0 5000 ?j ?s))"
    using muted_subscription_gets_nothing[where s = ?s and sub = "sub0 ''u4'' False (Some 900000) []"
        and d = "dev0 ''d4'' ''u4'' Web" and j = ?j and now = 5000 and e = env0]
    by (simp add: sys1_def sys0_def sub0_def dev0_def endJob_def bc0_def job0_def)
  have run: "map logKey (snd (fanOut env0 5000 ?j ?s)) = [(''u3'', ''d3'')]"
    by (simp add: fanOut_def endJob_def job0_def bc0_def sys1_def sys0_def sub0_def dev0_def
        selectBroadcast_def recipients_def joinRow_def deliver_def mutedPrayersOf_def logKey_def Let_def)
  from u2 u4 run show ?thesis by (simp add: sub0_def dev0_def)
qed








section \<open>Proofs: template expander\<close>

lemma existing_None:
  "existingSchedule tp ds sc = None \<longleftrightarrow> (\<forall>dt. ds = Some dt \<longrightarrow> wantedKey tp dt \<notin> skey ` set sc)"
  by (cases ds) (force simp: existingSchedule_def find_None_iff wantedKey_def skey_def image_iff)+

lemma settled_noop: "settled lux tp off sc \<Longrightarrow> expandOne lux tp off sc = (None, sc)"
  by (auto simp: settled_def expandOne_def Let_def split: option.splits)

lemma settled_mono: "settled lux tp off sc \<Longrightarrow> set sc \<subseteq> set sc' \<Longrightarrow> settled lux tp off sc'"
  by (auto simp: settled_def existing_None)

lemma insert_ok:
  assumes "insertSchedule row sc = Inr sc'"
  shows "sc' = sc @ [row] \<and> skey row \<notin> skey ` set sc"
  using assms by (auto simp: insertSchedule_def split: if_splits)

lemma expandOne_ok:
  assumes "expandOne lux tp off sc = (None, sc')"
  shows "settled lux tp off sc' \<and> set sc \<subseteq> set sc' \<and> (distinct (map skey sc) \<longrightarrow> distinct (map skey sc'))"
proof (cases "settled lux tp off sc")
  case True
  with assms settled_noop[OF True] show ?thesis by simp
next
  case False
  then obtain a where ex: "existingSchedule tp (localDate lux (zoneOf tp) off) sc = None"
    and a: "fromISO lux (dateText (localDate lux (zoneOf tp) off) @ ''T'' @ tr_adhanTimeLocal tp) (zoneOf tp) = Some a"
    by (auto simp: settled_def)
  from assms ex a obtain dt i k where dt: "localDate lux (zoneOf tp) off = Some dt"
    and ins: "insertSchedule (newSchedule tp dt a i k) sc = Inr sc'"
    by (auto simp: expandOne_def Let_def split: sum.splits option.splits)
  from insert_ok[OF ins] have sc': "sc' = sc @ [newSchedule tp dt a i k]"
    and fresh: "skey (newSchedule tp dt a i k) \<notin> skey ` set sc" by simp_all
  have "skey (newSchedule tp dt a i k) = wantedKey tp dt"
    by (simp add: skey_def newSchedule_def wantedKey_def)
  then have "existingSchedule tp (Some dt) sc' \<noteq> None"
    unfolding existing_None sc' by auto
  then have "settled lux tp off sc'" by (simp add: settled_def dt)
  then show ?thesis using sc' fresh by auto
qed

lemma runItems_ok:
  assumes "runItems lux items sc = (None, sc')"
  shows "(\<forall>(tp, off) \<in> set items. settled lux tp off sc') \<and> set sc \<subseteq> set sc'
       \<and> (distinct (map skey sc) \<longrightarrow> distinct (map skey sc'))"
  using assms
proof (induction items arbitrary: sc)
  case Nil
  then show ?case by simp
next
  case (Cons it items)
  obtain tp off where it: "it = (tp, off)" by (cases it)
  from Cons.prems it obtain sc1 where 1: "expandOne lux tp off sc = (None, sc1)"
    and 2: "runItems lux items sc1 = (None, sc')"
    by (auto split: prod.splits option.splits)
  from expandOne_ok[OF 1] Cons.IH[OF 2] settled_mono[of lux tp off sc1 sc']
  show ?case by (auto simp: it)
qed

lemma runItems_noop:
  "\<forall>(tp, off) \<in> set items. settled lux tp off sc \<Longrightarrow> runItems lux items sc = (None, sc)"
  by (induction items) (auto simp: settled_noop)

lemma one_row:
  assumes "distinct (map skey sc)" and "k \<in> skey ` set sc"
  shows "length (filter (\<lambda>r. skey r = k) sc) = 1"
  using assms
proof (induction sc)
  case Nil
  then show ?case by simp
next
  case (Cons r sc)
  show ?case
  proof (cases "skey r = k")
    case True
    with Cons.prems(1) have "filter (\<lambda>r. skey r = k) sc = []"
      by (force simp: filter_empty_conv image_iff)
    with True show ?thesis by simp
  next
    case False
    with Cons show ?thesis by auto
  qed
qed

text \<open>
  C7. Starting from a schedules table with unique (masjidId, date, prayerName) keys, a run
  of the expander that ends without an exception leaves the keys unique; a second run
  within the same local day (the same two target dates per zone) ends without an
  exception and leaves the table exactly as the first run left it; and for every template
  and each of the two day offsets whose date and adhan time resolve, the table holds
  exactly one row with the key of that template and date.
\<close>

theorem expander_idempotent:
  assumes "distinct (map skey scheds)"
    and "ensureDailySchedulesFromTemplates lux tpls ms scheds = (None, scheds')"
  shows "distinct (map skey scheds')
       \<and> ensureDailySchedulesFromTemplates lux tpls ms scheds' = (None, scheds')
       \<and> (\<forall>template \<in> set (templateRows tpls ms). \<forall>offset < 2. \<forall>dt a.
            localDate lux (zoneOf template) offset = Some dt
            \<and> fromISO lux (dt @ ''T'' @ tr_adhanTimeLocal template) (zoneOf template) = Some a
            \<longrightarrow> length (filter (\<lambda>r. skey r = wantedKey template dt) scheds') = 1)"
proof (cases "templateRows tpls ms = []")
  case True
  with assms show ?thesis by (simp add: ensureDailySchedulesFromTemplates_def)
next
  case False
  let ?items = "workItems (templateRows tpls ms)"
  from assms(2) False have run: "runItems lux ?items scheds = (None, scheds')"
    by (simp add: ensureDailySchedulesFromTemplates_def)
  from runItems_ok[OF run] assms(1)
  have st: "\<forall>(tp, off) \<in> set ?items. settled lux tp off scheds'"
    and dist: "distinct (map skey scheds')" by auto
  have again: "ensureDailySchedulesFromTemplates lux tpls ms scheds' = (None, scheds')"
    using runItems_noop[OF st] False by (simp add: ensureDailySchedulesFromTemplates_def)
  have one: "length (filter (\<lambda>r. skey r = wantedKey template dt) scheds') = 1"
    if tp: "template \<in> set (templateRows tpls ms)" and off: "offset < 2"
      and dt: "localDate lux (zoneOf template) offset = Some dt"
      and a: "fromISO lux (dt @ ''T'' @ tr_adhanTimeLocal template) (zoneOf template) = Some a"
    for template offset dt a
  proof -
    from off have "offset = 0 \<or> offset = 1" by auto
    with tp have "(template, offset) \<in> set ?items" by (auto simp: workItems_def)
    with st have "settled lux template offset scheds'" by auto
    with dt a have "existingSchedule template (Some dt) scheds' \<noteq> None"
      by (simp add: settled_def dateText_def)
    then have "wantedKey template dt \<in> skey ` set scheds'" by (simp add: existing_None)
    with dist show ?thesis by (rule one_row)
  qed
  from dist again one show ?thesis by blast
qed

theorem expander_idempotent_witness:
  "ensureDailySchedulesFromTemplates lux0 [tpl0] (masjids (sys0 [])) [] =
     (None, [sched0 ''2026-03-01'' 1772322000000, sched0 ''2026-03-02'' 1772408400000])
   \<and> ensureDailySchedulesFromTemplates lux0 [tpl0] (masjids (sys0 []))
        [sched0 ''2026-03-01'' 1772322000000, sched0 ''2026-03-02'' 1772408400000] =
     (None, [sched0 ''2026-03-01'' 1772322000000, sched0 ''2026-03-02'' 1772408400000])
   \<and> distinct (map skey [sched0 ''2026-03-01'' 1772322000000, sched0 ''2026-03-02'' 1772408400000])"
proof -
  have run: "ensureDailySchedulesFromTemplates lux0 [tpl0] (masjids (sys0 [])) [] =
     (None, [sched0 ''2026-03-01'' 1772322000000, sched0 ''2026-03-02'' 1772408400000])"
    by (simp add: ensureDailySchedulesFromTemplates_def templateRows_def workItems_def sys0_def
        tpl0_def lux0_def sched0_def expandOne_def zoneOf_def existingSchedule_def dateText_def
        optionalUtc_def truthy_def insertSchedule_def newSchedule_def skey_def Let_def)
  have d: "distinct (map skey ([] :: schedule list))" by simp
  from expander_idempotent[OF d run] run show ?thesis by simp
qed

section \<open>Proofs: relay table\<close>

lemma activeRelays_addEffects [simp]: "activeRelays (addEffects xs s) = activeRelays s"
  by (simp add: addEffects_def)

lemma activeRelays_stopLivekitEgress [simp]: "activeRelays (stopLivekitEgress e g s) = activeRelays s"
  by (simp add: stopLivekitEgress_def)

lemma stopped_entry_gone: "activeRelays (snd (stopHlsRelay e bid s)) bid = None"
  by (simp add: stopHlsRelay_def Let_def split: option.splits)

lemma stop_absent: "activeRelays s bid = None \<Longrightarrow> stopHlsRelay e bid s = (None, s)"
  by (simp add: stopHlsRelay_def)

text \<open>
  C9. stopHlsRelay on a broadcast id with no entry in the relay table returns null and
  leaves everything as it is (no process is killed, no egress is stopped); after any call
  the table has no entry for that id; so a second call returns null and changes nothing.
\<close>

theorem stopHlsRelay_idempotent:
  "(activeRelays s bid = None \<longrightarrow> stopHlsRelay e bid s = (None, s))
   \<and> activeRelays (snd (stopHlsRelay e bid s)) bid = None
   \<and> stopHlsRelay e bid (snd (stopHlsRelay e bid s)) = (None, snd (stopHlsRelay e bid s))"
  using stop_absent stopped_entry_gone by blast

theorem stopHlsRelay_idempotent_witness:
  "stopHlsRelay env0 ''b1'' (sys0 []) = (None, sys0 [])
   \<and> effects (snd (stopHlsRelay env0 ''b1'' sysR)) = [KillProcess 4242]
   \<and> activeRelays (snd (stopHlsRelay env0 ''b1'' sysR)) ''b1'' = None
   \<and> stopHlsRelay env0 ''b1'' (snd (stopHlsRelay env0 ''b1'' sysR)) =
       (None, snd (stopHlsRelay env0 ''b1'' sysR))"
proof -
  have fx: "effects (snd (stopHlsRelay env0 ''b1'' sysR)) = [KillProcess 4242]"
    by (simp add: stopHlsRelay_def sysR_def sys0_def env0_def addEffects_def truthy_def
        stopLivekitEgress_def hasLivekitConfig_def Let_def)
  have ab: "activeRelays (sys0 []) ''b1'' = None" by (simp add: sys0_def)
  from stopHlsRelay_idempotent[where s = "sys0 []" and bid = "''b1''" and e = env0] ab
    stopHlsRelay_idempotent[where s = sysR and bid = "''b1''" and e = env0] fx
  show ?thesis by simp
qed

section \<open>Proofs: creating a broadcast\<close>




















section \<open>Proofs: signed HLS URLs\<close>

lemma length_hexDigest [simp]: "length (hexDigest w) = 64"
  by (simp add: hexDigest_def)

lemma hlsSignature_nonempty: "hlsSignature rt e bid n \<noteq> []"
proof
  assume "hlsSignature rt e bid n = []"
  then have "length (hlsSignature rt e bid n) = 0" by simp
  then show False by (simp add: hlsSignature_def)
qed

lemma verify_iff:
  "verifyHlsSignature rt e now bid expText sigText \<longleftrightarrow>
     truthy (HLS_SIGNING_SECRET e) \<and> truthy expText
     \<and> (\<exists>n. toNumber rt (orEmpty expText) = Some n \<and> of_int (now div 1000) \<le> n
            \<and> sigText = Some (hlsSignature rt e bid n))"
proof (cases sigText)
  case None
  then show ?thesis by (simp add: verifyHlsSignature_def truthy_def)
next
  case (Some sg)
  show ?thesis
  proof (cases "toNumber rt (orEmpty expText)")
    case None
    then show ?thesis by (simp add: verifyHlsSignature_def)
  next
    case (Some n)
    have "sg = hlsSignature rt e bid n \<Longrightarrow> sg \<noteq> []" using hlsSignature_nonempty by simp
    with Some \<open>sigText = Some sg\<close> show ?thesis
      by (auto simp: verifyHlsSignature_def truthy_def orEmpty_def Let_def not_less)
  qed
qed

lemma signed_url_verifies:
  assumes "truthy (HLS_SIGNING_SECRET e)"
    and "toNumber rt (numberText rt (hlsExpiry e t0)) = Some (hlsExpiry e t0)"
    and "numberText rt (hlsExpiry e t0) \<noteq> []"
  shows "verifyHlsSignature rt e t1 bid (Some (numberText rt (hlsExpiry e t0)))
           (Some (hlsSignature rt e bid (hlsExpiry e t0)))
         \<longleftrightarrow> of_int (t1 div 1000) \<le> hlsExpiry e t0"
  using assms by (simp add: verify_iff truthy_def orEmpty_def)


text \<open>The hex text of a digest: 64 hex digits, and different digests have different texts.\<close>

lemma nibble_lt: "unat (take_bit 4 (x :: 256 word)) < 16"
  using take_bit_nat_less_exp[of 4 "unat x"] by (simp add: unsigned_take_bit_eq)

lemma hexchar_inj:
  assumes "i < 16" "j < 16" "''0123456789abcdef'' ! i = ''0123456789abcdef'' ! j"
  shows "i = j"
proof -
  have "distinct ''0123456789abcdef''" by simp
  moreover have "length ''0123456789abcdef'' = 16" by simp
  ultimately show ?thesis using assms by (metis nth_eq_iff_index_eq)
qed

lemma hexDigest_nibbles:
  assumes "hexDigest w = hexDigest w'" and "i < 64"
  shows "take_bit 4 (drop_bit (4 * (63 - i)) w) = take_bit 4 (drop_bit (4 * (63 - i)) w')"
proof -
  have "hexDigest w ! i = hexDigest w' ! i" using assms(1) by simp
  then have "''0123456789abcdef'' ! unat (take_bit 4 (drop_bit (4 * (63 - i)) w))
           = ''0123456789abcdef'' ! unat (take_bit 4 (drop_bit (4 * (63 - i)) w'))"
    using assms(2) by (simp add: hexDigest_def)
  then have "unat (take_bit 4 (drop_bit (4 * (63 - i)) w)) = unat (take_bit 4 (drop_bit (4 * (63 - i)) w'))"
    using hexchar_inj nibble_lt by blast
  then show ?thesis by (simp only: word_unat_eq_iff)
qed

lemma hexDigest_inj: "hexDigest w = hexDigest w' \<longleftrightarrow> w = w'"
proof
  assume h: "hexDigest w = hexDigest w'"
  show "w = w'"
  proof (rule bit_word_eqI)
    fix n assume "n < LENGTH(256)"
    then have n: "n < 256" by simp
    let ?i = "63 - n div 4"
    have i: "?i < 64" by simp
    have k: "4 * (63 - ?i) + n mod 4 = n" using n by simp
    have "bit (take_bit 4 (drop_bit (4 * (63 - ?i)) w)) (n mod 4)
        = bit (take_bit 4 (drop_bit (4 * (63 - ?i)) w')) (n mod 4)"
      using hexDigest_nibbles[OF h i] by simp
    then have "bit w (4 * (63 - ?i) + n mod 4) = bit w' (4 * (63 - ?i) + n mod 4)"
      by (simp add: bit_take_bit_iff bit_drop_bit_eq)
    then show "bit w n = bit w' n" by (simp only: k)
  qed
qed simp

lemma hexDigest_chars: "set (hexDigest w) \<subseteq> set ''0123456789abcdef''"
proof
  fix c assume "c \<in> set (hexDigest w)"
  then obtain i where "c = ''0123456789abcdef'' ! unat (take_bit 4 (drop_bit (4 * (63 - i)) w))"
    by (auto simp: hexDigest_def)
  moreover have "length ''0123456789abcdef'' = 16" by simp
  ultimately show "c \<in> set ''0123456789abcdef''"
    using nibble_lt[of "drop_bit (4 * (63 - i)) w"] by (metis nth_mem)
qed

text \<open>The signature check, with the signature written out.\<close>

lemma verify_hmac:
  "verifyHlsSignature rt e now bid expText sigText \<longleftrightarrow>
     (\<exists>secret ex n. HLS_SIGNING_SECRET e = Some secret \<and> secret \<noteq> []
         \<and> expText = Some ex \<and> ex \<noteq> []
         \<and> toNumber rt ex = Some n \<and> of_int (now div 1000) \<le> n
         \<and> sigText = Some (hexDigest (hmacSha256 rt secret (bid @ ''.'' @ numberText rt n))))"
  unfolding verify_iff hlsSignature_def
  by (cases "HLS_SIGNING_SECRET e"; cases expText) (auto simp: truthy_def orEmpty_def)

text \<open>The token and subscription authorization of the asset route, case by case.\<close>

lemma requestToken_eq:
  "requestToken req =
     (case rq_authorization req of
        None \<Rightarrow> rq_cookieToken req
      | Some h \<Rightarrow> (if take 7 h = ''Bearer '' \<and> 7 < length h then Some (drop 7 h)
                   else rq_cookieToken req))"
  by (auto simp: requestToken_def Let_def truthy_def split: option.splits)

lemma find_cascade:
  assumes "distinct (map b_id bs)"
  shows "(case find (\<lambda>b. b_id b = bid) bs of
            None \<Rightarrow> A
          | Some br \<Rightarrow> (case find (\<lambda>sub. P sub br) subs of None \<Rightarrow> B | Some sub \<Rightarrow> C))
       = (if \<not> (\<exists>b \<in> set bs. b_id b = bid) then A
          else if \<not> (\<exists>b \<in> set bs. \<exists>sub \<in> set subs. b_id b = bid \<and> P sub b) then B
          else C)"
proof (cases "find (\<lambda>b. b_id b = bid) bs")
  case None
  then have "\<not> (\<exists>b \<in> set bs. b_id b = bid)" by (simp add: find_None_iff)
  with None show ?thesis by simp
next
  case (Some br)
  from find_id_eq[OF Some] have br: "b_id br = bid" "br \<in> set bs" by simp_all
  from assms have inj: "inj_on b_id (set bs)" by (simp add: distinct_map)
  have uniq: "b = br" if "b \<in> set bs" "b_id b = bid" for b
    using inj that br by (auto dest: inj_onD)
  show ?thesis
  proof (cases "find (\<lambda>sub. P sub br) subs")
    case None
    then have "\<forall>sub \<in> set subs. \<not> P sub br" by (simp add: find_None_iff)
    with uniq have "\<not> (\<exists>b \<in> set bs. \<exists>sub \<in> set subs. b_id b = bid \<and> P sub b)" by blast
    with None Some br show ?thesis by auto
  next
    case (Some sub)
    then have "P sub br \<and> sub \<in> set subs" by (auto simp: find_Some_iff)
    with br have "\<exists>b \<in> set bs. \<exists>sub \<in> set subs. b_id b = bid \<and> P sub b" by blast
    with Some \<open>find (\<lambda>b. b_id b = bid) bs = Some br\<close> br show ?thesis by auto
  qed
qed

lemma subscriptionAuth_cases:
  assumes "distinct (map b_id (broadcasts s))"
  shows "subscriptionAuth rt req bid s =
     (if \<not> truthy (requestToken req) then Some (ApiError 401 ''unauthorized'' ''Missing token'')
      else (case verifyAccessToken rt (orEmpty (requestToken req)) of
              Inl err \<Rightarrow> Some err
            | Inr tokenData \<Rightarrow>
               (if \<not> truthy (tp_id tokenData) \<and> \<not> truthy (tp_sub tokenData)
                then Some (ApiError 401 ''unauthorized'' ''Invalid token'')
                else if \<not> (\<exists>b \<in> set (broadcasts s). b_id b = bid)
                then Some (ApiError 404 ''not_found'' ''Broadcast not found'')
                else if \<not> (\<exists>b \<in> set (broadcasts s). \<exists>sub \<in> set (subscriptions s).
                             b_id b = bid
                             \<and> Some (sub_userId sub)
                                 = (if truthy (tp_id tokenData) then tp_id tokenData else tp_sub tokenData)
                             \<and> sub_masjidId sub = b_masjidId b)
                then Some (ApiError 403 ''forbidden'' ''Subscription required'')
                else None)))"
  unfolding subscriptionAuth_def Let_def
    find_cascade[OF assms, where P = "\<lambda>sub b. Some (sub_userId sub) = actor \<and> sub_masjidId sub = b_masjidId b" for actor]
  by (auto split: sum.splits)

text \<open>
  C8. verifyHlsSignature is true exactly when the signing secret is configured, the exp
  parameter is present and converts to a finite number that is not below the current
  unix time, and sig is the hex text of the HMAC-SHA256, under the secret, of the id, a
  dot and exp as the number prints; that hex text has 64 hex digits and differs for
  different digests. When the runtime reads back the number it printed, signHlsUrl
  returns the path of the playlist with the expiry (the current unix time plus the
  configured lifetime, 900 seconds by default) and that signature, and they verify for the
  same id at every instant up to the expiry and at none after it. For a request with an id
  and a file, and broadcast ids unique, getHlsAsset serves the asset (404 when the file
  does not exist, otherwise the file with its content type) without consulting token or
  subscription when the signature verifies; otherwise it takes the token from a Bearer
  Authorization header or else the accessToken cookie and answers 401 when there is none,
  the verification error when the token does not verify, 401 when the token names no user,
  404 when the broadcast does not exist, 403 when the user has no subscription to the
  broadcast's masjid, and serves the asset in the remaining case.
\<close>

theorem hls_signature_contract:
  "(verifyHlsSignature rt e now bid expText sigText \<longleftrightarrow>
      (\<exists>secret ex n. HLS_SIGNING_SECRET e = Some secret \<and> secret \<noteq> []
          \<and> expText = Some ex \<and> ex \<noteq> []
          \<and> toNumber rt ex = Some n \<and> of_int (now div 1000) \<le> n
          \<and> sigText = Some (hexDigest (hmacSha256 rt secret (bid @ ''.'' @ numberText rt n)))))
   \<and> length (hexDigest w) = 64 \<and> set (hexDigest w) \<subseteq> set ''0123456789abcdef''
   \<and> ((hexDigest w = hexDigest w') = (w = w'))
   \<and> (\<forall>secret x. HLS_SIGNING_SECRET e = Some secret \<and> secret \<noteq> []
        \<and> x = of_int (t0 div 1000)
              + (case HLS_URL_TTL_SECONDS e of None \<Rightarrow> 900 | Some ttl \<Rightarrow> if ttl = 0 then 900 else ttl)
        \<and> toNumber rt (numberText rt x) = Some x \<and> numberText rt x \<noteq> [] \<longrightarrow>
        signHlsUrl rt e t0 bid basePath =
          Some ((if basePath \<noteq> [] \<and> last basePath = CHR ''/'' then butlast basePath else basePath)
                  @ ''/broadcasts/'' @ bid @ ''/hls/index.m3u8?exp='' @ numberText rt x @ ''&sig=''
                  @ hexDigest (hmacSha256 rt secret (bid @ ''.'' @ numberText rt x)))
        \<and> (verifyHlsSignature rt e t1 bid (Some (numberText rt x))
              (Some (hexDigest (hmacSha256 rt secret (bid @ ''.'' @ numberText rt x))))
            \<longleftrightarrow> of_int (t1 div 1000) \<le> x))
   \<and> (\<forall>rid fname tok served. rq_id req = Some rid \<and> rid \<noteq> [] \<and> rq_file req = Some fname \<and> fname \<noteq> []
        \<and> distinct (map b_id (broadcasts s))
        \<and> tok = (case rq_authorization req of
                   None \<Rightarrow> rq_cookieToken req
                 | Some h \<Rightarrow> (if take 7 h = ''Bearer '' \<and> 7 < length h then Some (drop 7 h)
                              else rq_cookieToken req))
        \<and> served = (if \<not> fileExists rt rid (pathBasename rt fname)
                    then Inl (ApiError 404 ''not_found'' ''HLS asset not found'')
                    else Inr (pathBasename rt fname,
                              if endsWith (pathBasename rt fname) ''.m3u8''
                              then Some ''application/vnd.apple.mpegurl''
                              else if endsWith (pathBasename rt fname) ''.m4s''
                              then Some ''video/iso.segment''
                              else if endsWith (pathBasename rt fname) ''.mp4'' then Some ''video/mp4''
                              else None)) \<longrightarrow>
        getHlsAsset rt e now req s =
          (if verifyHlsSignature rt e now rid (rq_exp req) (rq_sig req) then served
           else if tok = None \<or> tok = Some []
           then Inl (ApiError 401 ''unauthorized'' ''Missing token'')
           else (case verifyAccessToken rt (orEmpty tok) of
                   Inl err \<Rightarrow> Inl err
                 | Inr tokenData \<Rightarrow>
                    (if \<not> truthy (tp_id tokenData) \<and> \<not> truthy (tp_sub tokenData)
                     then Inl (ApiError 401 ''unauthorized'' ''Invalid token'')
                     else if \<not> (\<exists>b \<in> set (broadcasts s). b_id b = rid)
                     then Inl (ApiError 404 ''not_found'' ''Broadcast not found'')
                     else if \<not> (\<exists>b \<in> set (broadcasts s). \<exists>sub \<in> set (subscriptions s).
                                  b_id b = rid
                                  \<and> Some (sub_userId sub)
                                      = (if truthy (tp_id tokenData) then tp_id tokenData
                                         else tp_sub tokenData)
                                  \<and> sub_masjidId sub = b_masjidId b)
                     then Inl (ApiError 403 ''forbidden'' ''Subscription required'')
                     else served))))"
proof (intro conjI allI impI)
  show "verifyHlsSignature rt e now bid expText sigText \<longleftrightarrow>
      (\<exists>secret ex n. HLS_SIGNING_SECRET e = Some secret \<and> secret \<noteq> []
          \<and> expText = Some ex \<and> ex \<noteq> []
          \<and> toNumber rt ex = Some n \<and> of_int (now div 1000) \<le> n
          \<and> sigText = Some (hexDigest (hmacSha256 rt secret (bid @ ''.'' @ numberText rt n))))"
    by (rule verify_hmac)
  show "length (hexDigest w) = 64" by simp
  show "set (hexDigest w) \<subseteq> set ''0123456789abcdef''" by (rule hexDigest_chars)
  show "(hexDigest w = hexDigest w') = (w = w')" by (rule hexDigest_inj)
next
  fix secret x
  assume h: "HLS_SIGNING_SECRET e = Some secret \<and> secret \<noteq> []
        \<and> x = of_int (t0 div 1000)
              + (case HLS_URL_TTL_SECONDS e of None \<Rightarrow> 900 | Some ttl \<Rightarrow> if ttl = 0 then 900 else ttl)
        \<and> toNumber rt (numberText rt x) = Some x \<and> numberText rt x \<noteq> []"
  then have x: "x = hlsExpiry e t0" and sec: "truthy (HLS_SIGNING_SECRET e)"
    and sg: "hlsSignature rt e bid x = hexDigest (hmacSha256 rt secret (bid @ ''.'' @ numberText rt x))"
    by (simp_all add: hlsExpiry_def truthy_def hlsSignature_def orEmpty_def)
  show "signHlsUrl rt e t0 bid basePath =
          Some ((if basePath \<noteq> [] \<and> last basePath = CHR ''/'' then butlast basePath else basePath)
                  @ ''/broadcasts/'' @ bid @ ''/hls/index.m3u8?exp='' @ numberText rt x @ ''&sig=''
                  @ hexDigest (hmacSha256 rt secret (bid @ ''.'' @ numberText rt x)))"
    using h
    by (simp add: signHlsUrl_def Let_def pathPrefix_def truthy_def hlsSignature_def hlsExpiry_def
        orEmpty_def)
  have "verifyHlsSignature rt e t1 bid (Some (numberText rt (hlsExpiry e t0)))
           (Some (hlsSignature rt e bid (hlsExpiry e t0)))
         \<longleftrightarrow> of_int (t1 div 1000) \<le> hlsExpiry e t0"
  proof -
    from h have r1: "toNumber rt (numberText rt x) = Some x" and r2: "numberText rt x \<noteq> []"
      by blast+
    show ?thesis by (rule signed_url_verifies[OF sec r1[unfolded x] r2[unfolded x]])
  qed
  then show "verifyHlsSignature rt e t1 bid (Some (numberText rt x))
              (Some (hexDigest (hmacSha256 rt secret (bid @ ''.'' @ numberText rt x))))
            \<longleftrightarrow> of_int (t1 div 1000) \<le> x"
    unfolding x using sg[unfolded x] by simp
next
  fix rid fname tok served
  assume h: "rq_id req = Some rid \<and> rid \<noteq> [] \<and> rq_file req = Some fname \<and> fname \<noteq> []
        \<and> distinct (map b_id (broadcasts s))
        \<and> tok = (case rq_authorization req of
                   None \<Rightarrow> rq_cookieToken req
                 | Some h \<Rightarrow> (if take 7 h = ''Bearer '' \<and> 7 < length h then Some (drop 7 h)
                              else rq_cookieToken req))
        \<and> served = (if \<not> fileExists rt rid (pathBasename rt fname)
                    then Inl (ApiError 404 ''not_found'' ''HLS asset not found'')
                    else Inr (pathBasename rt fname,
                              if endsWith (pathBasename rt fname) ''.m3u8''
                              then Some ''application/vnd.apple.mpegurl''
                              else if endsWith (pathBasename rt fname) ''.m4s''
                              then Some ''video/iso.segment''
                              else if endsWith (pathBasename rt fname) ''.mp4'' then Some ''video/mp4''
                              else None))"
  then have dist: "distinct (map b_id (broadcasts s))" by blast
  from h have tok: "requestToken req = tok" by (simp add: requestToken_eq)
  from h have served: "serveAsset rt rid fname = served" by (simp add: serveAsset_def Let_def)
  from h have ids: "truthy (rq_id req)" "truthy (rq_file req)" "orEmpty (rq_id req) = rid"
    "orEmpty (rq_file req) = fname"
    by (simp_all add: truthy_def orEmpty_def)
  have g: "getHlsAsset rt e now req s =
      (if \<not> verifyHlsSignature rt e now rid (rq_exp req) (rq_sig req)
       then (case subscriptionAuth rt req rid s of Some err \<Rightarrow> Inl err | None \<Rightarrow> served)
       else served)"
    using ids by (simp add: getHlsAsset_def served split: option.splits)
  have tk: "truthy tok \<longleftrightarrow> \<not> (tok = None \<or> tok = Some [])"
    by (cases tok) (simp_all add: truthy_def)
  show "getHlsAsset rt e now req s =
          (if verifyHlsSignature rt e now rid (rq_exp req) (rq_sig req) then served
           else if tok = None \<or> tok = Some []
           then Inl (ApiError 401 ''unauthorized'' ''Missing token'')
           else (case verifyAccessToken rt (orEmpty tok) of
                   Inl err \<Rightarrow> Inl err
                 | Inr tokenData \<Rightarrow>
                    (if \<not> truthy (tp_id tokenData) \<and> \<not> truthy (tp_sub tokenData)
                     then Inl (ApiError 401 ''unauthorized'' ''Invalid token'')
                     else if \<not> (\<exists>b \<in> set (broadcasts s). b_id b = rid)
                     then Inl (ApiError 404 ''not_found'' ''Broadcast not found'')
                     else if \<not> (\<exists>b \<in> set (broadcasts s). \<exists>sub \<in> set (subscriptions s).
                                  b_id b = rid
                                  \<and> Some (sub_userId sub)
                                      = (if truthy (tp_id tokenData) then tp_id tokenData
                                         else tp_sub tokenData)
                                  \<and> sub_masjidId sub = b_masjidId b)
                     then Inl (ApiError 403 ''forbidden'' ''Subscription required'')
                     else served)))"
    unfolding g subscriptionAuth_cases[OF dist] tok tk
    by (cases "verifyAccessToken rt (orEmpty tok)") auto
qed

theorem hls_signature_contract_witness:
  "signHlsUrl rt0 env0 1772368200000 ''b1'' ''/api/v1/'' =
     Some ''/api/v1/broadcasts/b1/hls/index.m3u8?exp=1772369100&sig=00000000000000000000000000000000000006b6bfb384fa16e37eb0ef3e01cb''
   \<and> verifyHlsSignature rt0 env0 1772368800000 ''b1'' (Some ''1772369100'')
        (Some ''00000000000000000000000000000000000006b6bfb384fa16e37eb0ef3e01cb'')
   \<and> \<not> verifyHlsSignature rt0 env0 1772369101000 ''b1'' (Some ''1772369100'')
        (Some ''00000000000000000000000000000000000006b6bfb384fa16e37eb0ef3e01cb'')
   \<and> \<not> verifyHlsSignature rt0 env0 1772368800000 ''b2'' (Some ''1772369100'')
        (Some ''00000000000000000000000000000000000006b6bfb384fa16e37eb0ef3e01cb'')
   \<and> hexDigest 0 \<noteq> hexDigest 1
   \<and> getHlsAsset rt0 env0 1772368800000
        (rq0 (Some ''1772369100'')
             (Some ''00000000000000000000000000000000000006b6bfb384fa16e37eb0ef3e01cb''))
        (sys1 [bc0 Live (Some 0)]) =
       Inr (''index.m3u8'', Some ''application/vnd.apple.mpegurl'')
   \<and> getHlsAsset rt0 env0 1772368800000 (rq0 None None) (sys1 [bc0 Live (Some 0)]) =
       Inl (ApiError 401 ''unauthorized'' ''Missing token'')
   \<and> getHlsAsset rt0 env0 1772368800000 (rqAuth (Some ''Bearer tok-u3'') None)
        (sys1 [bc0 Live (Some 0)]) =
       Inr (''index.m3u8'', Some ''application/vnd.apple.mpegurl'')
   \<and> getHlsAsset rt0 env0 1772368800000 (rqAuth (Some ''Bearer tok-u9'') None)
        (sys1 [bc0 Live (Some 0)]) =
       Inl (ApiError 403 ''forbidden'' ''Subscription required'')
   \<and> getHlsAsset rt0 env0 1772368800000 (rqAuth None (Some ''tok-old''))
        (sys1 [bc0 Live (Some 0)]) =
       Inl (ApiError 401 ''unauthorized'' ''jwt malformed'')
   \<and> getHlsAsset rt0 env0 1772368800000 (rqAuth (Some ''Bearer tok-u3'') None) (sys1 []) =
       Inl (ApiError 404 ''not_found'' ''Broadcast not found'')"
proof -
  let ?sg = "''00000000000000000000000000000000000006b6bfb384fa16e37eb0ef3e01cb''"
  have ex: "HLS_URL_TTL_SECONDS env0 = Some 900" by (simp add: env0_def)
  have sec: "HLS_SIGNING_SECRET env0 = Some ''s3cret''" by (simp add: env0_def)
  have nt: "numberText rt0 1772369100 = ''1772369100''"
    and tn: "toNumber rt0 = (\<lambda>text. if text = ''1772369100'' then Some 1772369100 else None)"
    and pb: "pathBasename rt0 = (\<lambda>file. file)"
    and fe: "fileExists rt0 = (\<lambda>broadcastId file. broadcastId = ''b1'' \<and> file = ''index.m3u8'')"
    and va: "verifyAccessToken rt0 = (\<lambda>token.
                if token = ''tok-u3'' then Inr \<lparr> tp_id = Some ''u3'', tp_sub = None \<rparr>
                else if token = ''tok-u9'' then Inr \<lparr> tp_id = None, tp_sub = Some ''u9'' \<rparr>
                else Inl (ApiError 401 ''unauthorized'' ''jwt malformed''))"
    by (simp_all add: rt0_def)
  have sg1: "hexDigest (hmacSha256 rt0 ''s3cret'' ''b1.1772369100'') = ?sg"
    by code_simp
  have sg2: "hexDigest (hmacSha256 rt0 ''s3cret'' ''b2.1772369100'')
      = ''00000000000000000000000000000000000006b6c0bebca062b34dfb94750ccc''"
    by code_simp
  note c = hls_signature_contract[where rt = rt0 and e = env0 and ?t0.0 = 1772368200000
      and basePath = "''/api/v1/''" and w = 0 and w' = 1 and expText = "Some ''1772369100''"
      and sigText = "Some ?sg" and now = 1772368800000]
  note c1 = c[where bid = "''b1''" and req = "rq0 None None" and s = "sys1 []"]
  have url: "signHlsUrl rt0 env0 1772368200000 ''b1'' ''/api/v1/'' =
     Some ''/api/v1/broadcasts/b1/hls/index.m3u8?exp=1772369100&sig=00000000000000000000000000000000000006b6bfb384fa16e37eb0ef3e01cb''"
    using c1[where ?t1.0 = 0, THEN conjunct2, THEN conjunct2, THEN conjunct2, THEN conjunct2,
        THEN conjunct1, rule_format, of "''s3cret''" 1772369100]
    by (simp add: ex sec nt tn sg1)
  have ok: "verifyHlsSignature rt0 env0 1772368800000 ''b1'' (Some ''1772369100'') (Some ?sg)"
    using c1[where ?t1.0 = 1772368800000, THEN conjunct2, THEN conjunct2, THEN conjunct2,
        THEN conjunct2, THEN conjunct1, rule_format, of "''s3cret''" 1772369100]
    by (simp add: ex sec nt tn sg1)
  have late: "\<not> verifyHlsSignature rt0 env0 1772369101000 ''b1'' (Some ''1772369100'') (Some ?sg)"
    using c1[where ?t1.0 = 1772369101000, THEN conjunct2, THEN conjunct2, THEN conjunct2,
        THEN conjunct2, THEN conjunct1, rule_format, of "''s3cret''" 1772369100]
    by (simp add: ex sec nt tn sg1)
  have other: "\<not> verifyHlsSignature rt0 env0 1772368800000 ''b2'' (Some ''1772369100'') (Some ?sg)"
    using c[where bid = "''b2''" and req = "rq0 None None" and s = "sys1 []" and ?t1.0 = 0,
        THEN conjunct1]
    by (simp add: sec nt tn sg2)
  have inj: "hexDigest 0 \<noteq> hexDigest 1"
    using c1[where ?t1.0 = 0, THEN conjunct2, THEN conjunct2, THEN conjunct2, THEN conjunct1]
    by simp
  have no: "\<not> verifyHlsSignature rt0 env0 1772368800000 ''b1'' None None"
    by (simp add: verifyHlsSignature_def truthy_def)
  note a = c[where bid = "''b1''" and ?t1.0 = 0, THEN conjunct2, THEN conjunct2, THEN conjunct2,
      THEN conjunct2, THEN conjunct2, rule_format]
  have served: "getHlsAsset rt0 env0 1772368800000 (rq0 (Some ''1772369100'') (Some ?sg))
        (sys1 [bc0 Live (Some 0)]) = Inr (''index.m3u8'', Some ''application/vnd.apple.mpegurl'')"
    using a[where req = "rq0 (Some ''1772369100'') (Some ?sg)" and s = "sys1 [bc0 Live (Some 0)]",
        OF conjI[OF _ conjI[OF _ conjI[OF _ conjI[OF _ conjI[OF _ conjI[OF refl refl]]]]]],
        of "''b1''" "''index.m3u8''"] ok
    by (simp add: rq0_def sys1_def sys0_def bc0_def pb fe endsWith_def)
  have fallback: "getHlsAsset rt0 env0 1772368800000 (rq0 None None) (sys1 [bc0 Live (Some 0)]) =
       Inl (ApiError 401 ''unauthorized'' ''Missing token'')"
    using a[where req = "rq0 None None" and s = "sys1 [bc0 Live (Some 0)]",
        OF conjI[OF _ conjI[OF _ conjI[OF _ conjI[OF _ conjI[OF _ conjI[OF refl refl]]]]]],
        of "''b1''" "''index.m3u8''"] no
    by (simp add: rq0_def sys1_def sys0_def bc0_def)
  have no': "\<not> verifyHlsSignature rt0 env0 1772368800000 ''b1'' (rq_exp (rqAuth h k)) (rq_sig (rqAuth h k))"
    for h k
    using no by (simp add: rqAuth_def rq0_def)
  have member: "getHlsAsset rt0 env0 1772368800000 (rqAuth (Some ''Bearer tok-u3'') None)
        (sys1 [bc0 Live (Some 0)]) = Inr (''index.m3u8'', Some ''application/vnd.apple.mpegurl'')"
    using a[where req = "rqAuth (Some ''Bearer tok-u3'') None" and s = "sys1 [bc0 Live (Some 0)]",
        OF conjI[OF _ conjI[OF _ conjI[OF _ conjI[OF _ conjI[OF _ conjI[OF refl refl]]]]]],
        of "''b1''" "''index.m3u8''"] no'
    by (simp add: rqAuth_def rq0_def sys1_def sys0_def bc0_def sub0_def pb fe va endsWith_def
        orEmpty_def truthy_def)
  have stranger: "getHlsAsset rt0 env0 1772368800000 (rqAuth (Some ''Bearer tok-u9'') None)
        (sys1 [bc0 Live (Some 0)]) = Inl (ApiError 403 ''forbidden'' ''Subscription required'')"
    using a[where req = "rqAuth (Some ''Bearer tok-u9'') None" and s = "sys1 [bc0 Live (Some 0)]",
        OF conjI[OF _ conjI[OF _ conjI[OF _ conjI[OF _ conjI[OF _ conjI[OF refl refl]]]]]],
        of "''b1''" "''index.m3u8''"] no'
    by (simp add: rqAuth_def rq0_def sys1_def sys0_def bc0_def sub0_def pb fe va endsWith_def
        orEmpty_def truthy_def)
  have stale: "getHlsAsset rt0 env0 1772368800000 (rqAuth None (Some ''tok-old''))
        (sys1 [bc0 Live (Some 0)]) = Inl (ApiError 401 ''unauthorized'' ''jwt malformed'')"
    using a[where req = "rqAuth None (Some ''tok-old'')" and s = "sys1 [bc0 Live (Some 0)]",
        OF conjI[OF _ conjI[OF _ conjI[OF _ conjI[OF _ conjI[OF _ conjI[OF refl refl]]]]]],
        of "''b1''" "''index.m3u8''"] no'
    by (simp add: rqAuth_def rq0_def sys1_def sys0_def bc0_def sub0_def pb fe va endsWith_def
        orEmpty_def truthy_def)
  have gone: "getHlsAsset rt0 env0 1772368800000 (rqAuth (Some ''Bearer tok-u3'') None) (sys1 []) =
       Inl (ApiError 404 ''not_found'' ''Broadcast not found'')"
    using a[where req = "rqAuth (Some ''Bearer tok-u3'') None" and s = "sys1 []",
        OF conjI[OF _ conjI[OF _ conjI[OF _ conjI[OF _ conjI[OF _ conjI[OF refl refl]]]]]],
        of "''b1''" "''index.m3u8''"] no'
    by (simp add: rqAuth_def rq0_def sys1_def sys0_def bc0_def sub0_def pb fe va endsWith_def
        orEmpty_def truthy_def)
  from url ok late other inj served fallback member stranger stale gone show ?thesis by simp
qed

end
